theory Spec2Isabelle
  imports Complex_Main
begin

text \<open>
  A model of the review-verification and reward core of the Hashview backend: the
  geolocation and coupon utilities, the \<open>isValid\<close> method of the Coupon model, the handler
  \<open>createReview\<close> with its rate, duplicate, geofence and fraud checks, the recomputation
  of the business rating and the minting of the reward coupon, and the coupon lifecycle
  (scan, redemption, expiry sweep, update by the owner). Handlers are functions from a
  request, the readings they take from the clock and the random source, and the state of
  the stores to a response and the new state; an exception handed to \<open>next(error)\<close> is a
  response of its own. The model is sequential: one handler runs at a time.
\<close>

section \<open>Data model\<close>

text \<open>
  Identifiers (Mongo ObjectIds) are natural numbers, instants (\<open>Date\<close>) are milliseconds
  since the epoch as integers, and a schema field of type \<open>Number\<close> is a real: the finite
  doubles a JSON body or a stored document can carry are rationals, and every comparison the
  controllers make on them is exact. The rounding of the arithmetic the controllers and the
  coupon utilities do on these fields is not modelled; the geolocation functions are modelled
  on doubles.
\<close>

type_synonym object_id = nat
type_synonym instant = int

text \<open>A \<open>Date\<close> field of a document: unset (\<open>undefined\<close>), \<open>null\<close>, or an instant.\<close>

datatype js_date = Undefined | Null | Date instant

subsection \<open>Coupon (models/Coupon.model.js)\<close>

text \<open>
  The QR payload is the object whose JSON text is stored in \<open>qrCodeData\<close> and read back
  by the scan endpoint; in a scanned payload the coupon id may be missing.
\<close>

record qr_payload =
  qr_type :: string
  qr_couponId :: "object_id option"
  qr_code :: string
  qr_businessId :: object_id
  qr_userId :: object_id
  qr_reviewId :: object_id
  qr_timestamp :: instant

datatype coupon_type = Business_type | Review_reward

datatype reward_type = Percentage | Fixed | Buy1get1 | Free_drink | Free_item

datatype coupon_status = Active | Redeemed | Expired | Cancelled | Inactive

record coupon =
  c_id :: object_id
  c_business :: object_id
  c_type :: coupon_type
  c_user :: "object_id option"
  c_review :: "object_id option"
  c_code :: string
  c_description :: "string option"
  c_rewardType :: reward_type
  c_rewardValue :: real
  c_minPurchaseAmount :: real
  c_maxDiscountAmount :: "real option"
  c_validFrom :: js_date
  c_validUntil :: js_date
  c_usageLimit :: "real option"
  c_usageCount :: real
  c_redemptionLimit :: "real option"
  c_redemptionCount :: real
  c_status :: coupon_status
  c_isActive :: bool
  c_redeemedAt :: "instant option"
  c_redeemedBy :: "object_id option"
  c_qrCodeData :: "qr_payload option"

text \<open>
  JavaScript truthiness of an optional \<open>Number\<close> field: \<open>null\<close>, \<open>undefined\<close> and \<open>0\<close>
  are falsy, every other finite number is truthy.
\<close>

definition truthy_num :: "real option \<Rightarrow> bool" where
  "truthy_num v = (case v of None \<Rightarrow> False | Some x \<Rightarrow> x \<noteq> 0)"




section \<open>Coupon utilities\<close>

subsection \<open>utils/coupon.js\<close>

text \<open>
  \<open>calculateCouponExpiry(hours = 2)\<close>: the clock reading plus \<open>hours * 60 * 60 * 1000\<close>
  milliseconds.
\<close>

definition calculateCouponExpiry :: "instant \<Rightarrow> int \<Rightarrow> instant" where
  "calculateCouponExpiry now hours = now + hours * 60 * 60 * 1000"



subsection \<open>The \<open>isValid\<close> method of the Coupon model\<close>



text \<open>A coupon template of business type whose status has been set to redeemed.\<close>

definition redeemed_template :: coupon where
  "redeemed_template =
     \<lparr> c_id = 1, c_business = 1, c_type = Business_type, c_user = None, c_review = None,
       c_code = ''SAVE10'', c_description = None, c_rewardType = Percentage,
       c_rewardValue = 10, c_minPurchaseAmount = 0, c_maxDiscountAmount = None,
       c_validFrom = Date 0, c_validUntil = Null, c_usageLimit = None, c_usageCount = 0,
       c_redemptionLimit = None, c_redemptionCount = 0, c_status = Redeemed,
       c_isActive = True, c_redeemedAt = Some 50, c_redeemedBy = Some 7,
       c_qrCodeData = None \<rparr>"

section \<open>Geolocation (utils/geolocation.js)\<close>

subsection \<open>JavaScript numbers\<close>

text \<open>
  The arguments of the geolocation functions are JavaScript numbers, which are IEEE 754
  doubles. A number is modelled as \<open>NaN\<close>, one of the two infinities, or the real value of
  a finite double. The sign of a zero is not kept (every zero is \<open>+0\<close>): in
  \<open>calculateDistance\<close> the divisors are the literals \<open>180\<close> and \<open>2\<close>, and the arguments of
  \<open>Math.atan2\<close> are square roots of a sum and of a difference that are never \<open>-0\<close>.
\<close>

datatype jsnum = NaN | PosInf | NegInf | Num real

text \<open>
  Rounding to the nearest double, ties to even: a real \<open>x\<close> with
  \<open>2\<^sup>e \<le> \<bar>x\<bar> < 2\<^sup>e\<^sup>+\<^sup>1\<close> is rounded to a multiple of \<open>2\<^sup>e\<^sup>-\<^sup>5\<^sup>2\<close> (53 significant bits);
  below \<open>2\<^sup>-\<^sup>1\<^sup>0\<^sup>2\<^sup>2\<close> the doubles are the multiples of \<open>2\<^sup>-\<^sup>1\<^sup>0\<^sup>7\<^sup>4\<close>.
\<close>

definition round_half_even :: "real \<Rightarrow> int" where
  "round_half_even y =
     (let n = \<lfloor>y\<rfloor>; r = y - of_int n
      in if r < 1 / 2 then n else if 1 / 2 < r then n + 1 else if even n then n else n + 1)"

definition quantum_exponent :: "real \<Rightarrow> int" where
  "quantum_exponent x = max \<lfloor>log 2 \<bar>x\<bar>\<rfloor> (- 1022) - 52"

definition nearest_double :: "real \<Rightarrow> real" where
  "nearest_double x =
     (if x = 0 then 0
      else of_int (round_half_even (x / 2 powi quantum_exponent x)) * 2 powi quantum_exponent x)"

text \<open>
  The result of an operation whose exact value is \<open>x\<close>: the nearest double, or an infinity
  when that is beyond the largest double.
\<close>

definition js_number :: "real \<Rightarrow> jsnum" where
  "js_number x =
     (let d = nearest_double x
      in if 2 ^ 1024 \<le> d then PosInf else if d \<le> - (2 ^ 1024) then NegInf else Num d)"

text \<open>The arithmetic operators: IEEE addition, subtraction, multiplication and division.\<close>

fun js_add :: "jsnum \<Rightarrow> jsnum \<Rightarrow> jsnum" where
  "js_add NaN y = NaN"
| "js_add x NaN = NaN"
| "js_add PosInf NegInf = NaN"
| "js_add NegInf PosInf = NaN"
| "js_add PosInf y = PosInf"
| "js_add NegInf y = NegInf"
| "js_add (Num a) PosInf = PosInf"
| "js_add (Num a) NegInf = NegInf"
| "js_add (Num a) (Num b) = js_number (a + b)"

fun js_sub :: "jsnum \<Rightarrow> jsnum \<Rightarrow> jsnum" where
  "js_sub NaN y = NaN"
| "js_sub x NaN = NaN"
| "js_sub PosInf PosInf = NaN"
| "js_sub NegInf NegInf = NaN"
| "js_sub PosInf y = PosInf"
| "js_sub NegInf y = NegInf"
| "js_sub (Num a) PosInf = NegInf"
| "js_sub (Num a) NegInf = PosInf"
| "js_sub (Num a) (Num b) = js_number (a - b)"

fun js_mul :: "jsnum \<Rightarrow> jsnum \<Rightarrow> jsnum" where
  "js_mul NaN y = NaN"
| "js_mul x NaN = NaN"
| "js_mul PosInf PosInf = PosInf"
| "js_mul PosInf NegInf = NegInf"
| "js_mul NegInf PosInf = NegInf"
| "js_mul NegInf NegInf = PosInf"
| "js_mul PosInf (Num b) = (if b = 0 then NaN else if 0 < b then PosInf else NegInf)"
| "js_mul NegInf (Num b) = (if b = 0 then NaN else if 0 < b then NegInf else PosInf)"
| "js_mul (Num a) PosInf = (if a = 0 then NaN else if 0 < a then PosInf else NegInf)"
| "js_mul (Num a) NegInf = (if a = 0 then NaN else if 0 < a then NegInf else PosInf)"
| "js_mul (Num a) (Num b) = js_number (a * b)"

fun js_div :: "jsnum \<Rightarrow> jsnum \<Rightarrow> jsnum" where
  "js_div NaN y = NaN"
| "js_div x NaN = NaN"
| "js_div PosInf PosInf = NaN"
| "js_div PosInf NegInf = NaN"
| "js_div NegInf PosInf = NaN"
| "js_div NegInf NegInf = NaN"
| "js_div PosInf (Num b) = (if 0 \<le> b then PosInf else NegInf)"
| "js_div NegInf (Num b) = (if 0 \<le> b then NegInf else PosInf)"
| "js_div (Num a) PosInf = Num 0"
| "js_div (Num a) NegInf = Num 0"
| "js_div (Num a) (Num b) =
     (if b = 0 then (if a = 0 then NaN else if 0 < a then PosInf else NegInf)
      else js_number (a / b))"

text \<open>
  \<open>Math.sin\<close>, \<open>Math.cos\<close>, \<open>Math.sqrt\<close> and \<open>Math.atan2\<close> are taken to return the double
  nearest to the exact value (ECMAScript leaves the accuracy of all but the square root to
  the implementation). The sine and the cosine of an infinity and the square root of a
  negative number are \<open>NaN\<close>.
\<close>

fun js_sin :: "jsnum \<Rightarrow> jsnum" where
  "js_sin (Num a) = js_number (sin a)"
| "js_sin x = NaN"

fun js_cos :: "jsnum \<Rightarrow> jsnum" where
  "js_cos (Num a) = js_number (cos a)"
| "js_cos x = NaN"

fun js_sqrt :: "jsnum \<Rightarrow> jsnum" where
  "js_sqrt (Num a) = (if a < 0 then NaN else js_number (sqrt a))"
| "js_sqrt PosInf = PosInf"
| "js_sqrt x = NaN"

text \<open>\<open>Math.atan2(y, x)\<close>: the angle of the point \<open>(x, y)\<close>, in \<open>(-pi, pi]\<close>.\<close>

definition atan2 :: "real \<Rightarrow> real \<Rightarrow> real" where
  "atan2 y x =
     (if x > 0 then arctan (y / x)
      else if x < 0 then (if y \<ge> 0 then arctan (y / x) + pi else arctan (y / x) - pi)
      else if y > 0 then pi / 2
      else if y < 0 then - (pi / 2)
      else 0)"

fun js_atan2 :: "jsnum \<Rightarrow> jsnum \<Rightarrow> jsnum" where
  "js_atan2 NaN x = NaN"
| "js_atan2 y NaN = NaN"
| "js_atan2 PosInf PosInf = js_number (pi / 4)"
| "js_atan2 PosInf NegInf = js_number (3 * pi / 4)"
| "js_atan2 PosInf (Num b) = js_number (pi / 2)"
| "js_atan2 NegInf PosInf = js_number (- (pi / 4))"
| "js_atan2 NegInf NegInf = js_number (- (3 * pi / 4))"
| "js_atan2 NegInf (Num b) = js_number (- (pi / 2))"
| "js_atan2 (Num a) PosInf = Num 0"
| "js_atan2 (Num a) NegInf = (if 0 \<le> a then js_number pi else js_number (- pi))"
| "js_atan2 (Num a) (Num b) = js_number (atan2 a b)"

text \<open>The comparison \<open><=\<close>: false as soon as one side is \<open>NaN\<close>.\<close>

fun js_le :: "jsnum \<Rightarrow> jsnum \<Rightarrow> bool" where
  "js_le NaN y = False"
| "js_le x NaN = False"
| "js_le NegInf y = True"
| "js_le x PosInf = True"
| "js_le PosInf y = False"
| "js_le x NegInf = False"
| "js_le (Num a) (Num b) = (a \<le> b)"

text \<open>\<open>Math.PI\<close> is the double nearest to \<open>pi\<close>, \<open>3.141592653589793115997963...\<close>.\<close>

definition js_PI :: jsnum where
  "js_PI = Num (884279719003555 / 281474976710656)"

subsection \<open>The functions\<close>

definition calculateDistance :: "jsnum \<Rightarrow> jsnum \<Rightarrow> jsnum \<Rightarrow> jsnum \<Rightarrow> jsnum" where
  "calculateDistance lat1 lon1 lat2 lon2 =
     (let R = Num 6371000;
          phi1 = js_div (js_mul lat1 js_PI) (Num 180);
          phi2 = js_div (js_mul lat2 js_PI) (Num 180);
          dphi = js_div (js_mul (js_sub lat2 lat1) js_PI) (Num 180);
          dlam = js_div (js_mul (js_sub lon2 lon1) js_PI) (Num 180);
          a = js_add
                (js_mul (js_sin (js_div dphi (Num 2))) (js_sin (js_div dphi (Num 2))))
                (js_mul
                   (js_mul (js_mul (js_cos phi1) (js_cos phi2)) (js_sin (js_div dlam (Num 2))))
                   (js_sin (js_div dlam (Num 2))));
          c = js_mul (Num 2) (js_atan2 (js_sqrt a) (js_sqrt (js_sub (Num 1) a)));
          distance = js_mul R c
      in distance)"

text \<open>
  \<open>isWithinGeofence\<close>. The two \<open>console.log\<close> lines only format the distance
  (\<open>toFixed\<close> is defined on every number, \<open>NaN\<close> included) and have no other effect.
\<close>

definition isWithinGeofence :: "jsnum \<Rightarrow> jsnum \<Rightarrow> jsnum \<Rightarrow> jsnum \<Rightarrow> jsnum \<Rightarrow> bool" where
  "isWithinGeofence userLat userLon businessLat businessLon radius =
     (let distance = calculateDistance userLat userLon businessLat businessLon;
          isWithin = js_le distance radius
      in isWithin)"

text \<open>
  The haversine great-circle distance as the specification words it: on a sphere of radius
  6,371,000 m, between two points given by latitude and longitude in degrees,
  \<open>2 R arcsin (sqrt (hav dphi + cos phi1 * cos phi2 * hav dlam))\<close> with
  \<open>hav x = (sin (x / 2))\<^sup>2\<close>.
\<close>

definition radians :: "real \<Rightarrow> real" where
  "radians d = d * pi / 180"

definition hav :: "real \<Rightarrow> real" where
  "hav x = (sin (x / 2))\<^sup>2"

definition haversine_a :: "real \<Rightarrow> real \<Rightarrow> real \<Rightarrow> real \<Rightarrow> real" where
  "haversine_a lat1 lon1 lat2 lon2 =
     hav (radians lat2 - radians lat1)
       + cos (radians lat1) * cos (radians lat2) * hav (radians lon2 - radians lon1)"

definition haversine_distance :: "real \<Rightarrow> real \<Rightarrow> real \<Rightarrow> real \<Rightarrow> real" where
  "haversine_distance lat1 lon1 lat2 lon2 =
     2 * 6371000 * arcsin (sqrt (haversine_a lat1 lon1 lat2 lon2))"

section \<open>Review submission (controllers/review.controller.js)\<close>

subsection \<open>Documents\<close>

datatype review_status = Rv_pending | Rv_approved | Rv_rejected | Rv_flagged

datatype business_status = Biz_pending | Biz_active | Biz_inactive | Biz_suspended | Biz_rejected

text \<open>
  Of the device fingerprint only \<open>deviceId\<close> is read by the controller; of a client-reported
  anomaly only \<open>type\<close> and \<open>timestamp\<close> are (its free-form \<open>metadata\<close> object is copied
  into the log entry and not inspected).
\<close>

record device_fingerprint =
  deviceId :: string

record client_activity =
  a_type :: string
  a_timestamp :: "instant option"

record security_metadata =
  sm_locationAccuracy :: "real option"
  sm_verificationTime :: "real option"
  sm_motionDetected :: "bool option"
  sm_isMockLocation :: "bool option"
  sm_locationHistoryCount :: "real option"
  sm_suspiciousActivitiesCount :: nat
  sm_deviceFingerprint :: "device_fingerprint option"
  sm_devicePlatform :: "string option"
  sm_actualDistance :: jsnum
  sm_businessRadius :: real
  sm_submittedAt :: instant

text \<open>Coordinates are stored as \<open>[longitude, latitude]\<close>.\<close>

record review =
  r_id :: object_id
  r_user :: object_id
  r_business :: object_id
  r_rating :: real
  r_comment :: string
  r_emotion :: "string option"
  r_coordinates :: "real \<times> real"
  r_verified :: bool
  r_status :: review_status
  r_couponAwarded :: bool
  r_coupon :: "object_id option"
  r_securityMetadata :: security_metadata
  r_createdAt :: instant

record business =
  b_id :: object_id
  b_owner :: object_id
  b_status :: business_status
  b_coordinates :: "real \<times> real"
  b_radius :: real
  b_ratingAverage :: real
  b_ratingCount :: nat
  b_reviewCount :: nat

subsection \<open>The in-memory suspicious-activity log\<close>

datatype event_metadata =
    M_reviewCount nat
  | M_distance jsnum real
  | M_accuracy real
  | M_verificationTime real
  | M_devicePlatform "string option"
  | M_locationHistoryCount real
  | M_activity "instant option"
  | M_device string nat

record log_entry =
  le_userId :: object_id
  le_eventType :: string
  le_businessId :: object_id
  le_metadata :: event_metadata
  le_timestamp :: instant

text \<open>
  \<open>logSuspiciousBehavior\<close>: push the entry, then drop the oldest one when the log holds more
  than 1000 entries. Every metadata object the controller passes carries \<open>businessId\<close>.
\<close>

definition logSuspiciousBehavior ::
  "instant \<Rightarrow> object_id \<Rightarrow> string \<Rightarrow> object_id \<Rightarrow> event_metadata \<Rightarrow> log_entry list
     \<Rightarrow> log_entry list" where
  "logSuspiciousBehavior t userId eventType businessId metadata slog =
     (let logEntry = \<lparr> le_userId = userId, le_eventType = eventType,
                        le_businessId = businessId, le_metadata = metadata,
                        le_timestamp = t \<rparr>;
          slog' = slog @ [logEntry]
      in if length slog' > 1000 then tl slog' else slog')"

subsection \<open>The request and its environment\<close>

text \<open>
  The body of \<open>POST /api/reviews\<close> after the Joi schema \<open>createReview\<close> has accepted it:
  the numeric fields are finite numbers, every security-metadata field is optional
  (\<open>None\<close> is an absent field). The pass-through fields \<open>images\<close> and \<open>videos\<close> are left out.
\<close>

record review_request =
  q_user :: object_id
  q_business :: object_id
  q_rating :: real
  q_comment :: string
  q_emotion :: "string option"
  q_latitude :: real
  q_longitude :: real
  q_locationAccuracy :: "real option"
  q_verificationTime :: "real option"
  q_motionDetected :: "bool option"
  q_isMockLocation :: "bool option"
  q_locationHistoryCount :: "real option"
  q_suspiciousActivities :: "client_activity list option"
  q_deviceFingerprint :: "device_fingerprint option"
  q_devicePlatform :: "string option"

text \<open>
  What the handler reads from outside the stores: the time zone of the server (the offset
  from UTC in force when the request arrives, in milliseconds, and the next change of that
  offset when the zone has daylight-saving time: the instant of the change and the offset
  from then on), the clock at the four places where a reading matters (\<open>today\<close>, the
  creation of the review, \<open>couponExpiry\<close>, \<open>validFrom\<close>), the random draws of
  \<open>generateCouponCode\<close>, and the identifiers the store gives to the new documents.
\<close>

record env =
  e_tz :: int
  e_tz_change :: "(instant \<times> int) option"
  e_now :: instant
  e_created :: instant
  e_expiry :: instant
  e_validFrom :: instant
  e_draws :: "nat list"
  e_reviewId :: object_id
  e_couponId :: object_id

record state =
  reviews :: "review list"
  businesses :: "business list"
  coupons :: "coupon list"
  suspiciousActivityLog :: "log_entry list"

subsection \<open>Dates\<close>

text \<open>
  \<open>Date\<close> arithmetic is done on local time. \<open>setHours(0, 0, 0, 0)\<close>, which gives \<open>today\<close>,
  is taken with the offset \<open>tz\<close> in force at the request: the request is taken to arrive
  before the next change of offset, and the local day to have begun after the previous one.
\<close>

definition setHours0 :: "int \<Rightarrow> instant \<Rightarrow> instant" where
  "setHours0 tz t = t - (t + tz) mod 86400000"

text \<open>
  The conversions of ECMAScript between an instant and the local time (\<open>LocalTime\<close> and
  \<open>UTC\<close>): the offset at an instant is the new one from the change on; a local time is
  read with the new offset when it is not before the change on either clock, so that a
  local time the change skips or repeats is read with the offset before the change.
\<close>

definition LocalTime :: "int \<Rightarrow> (instant \<times> int) option \<Rightarrow> instant \<Rightarrow> int" where
  "LocalTime tz change t =
     (case change of
        None \<Rightarrow> t + tz
      | Some (switch, tz') \<Rightarrow> if switch \<le> t then t + tz' else t + tz)"

definition UTC :: "int \<Rightarrow> (instant \<times> int) option \<Rightarrow> int \<Rightarrow> instant" where
  "UTC tz change local =
     (case change of
        None \<Rightarrow> local - tz
      | Some (switch, tz') \<Rightarrow> if switch + max tz tz' \<le> local then local - tz' else local - tz)"

text \<open>
  \<open>getHours()\<close> is the hour of the local time; \<open>setHours(h)\<close> replaces the hour of the
  local time, keeps its day, minutes, seconds and milliseconds, carries an hour count
  beyond 23 into the following days, and converts the local time it gets back.
\<close>

definition getHours :: "int \<Rightarrow> (instant \<times> int) option \<Rightarrow> instant \<Rightarrow> int" where
  "getHours tz change t = (LocalTime tz change t mod 86400000) div 3600000"

definition setHours :: "int \<Rightarrow> (instant \<times> int) option \<Rightarrow> instant \<Rightarrow> int \<Rightarrow> instant" where
  "setHours tz change t h =
     (let local = LocalTime tz change t
      in UTC tz change (local - local mod 86400000 + h * 3600000 + local mod 3600000))"

subsection \<open>\<open>generateCouponCode\<close> (utils/coupon.js)\<close>

text \<open>
  Each draw is \<open>Math.floor(Math.random() * characters.length)\<close>, a number below 36; the
  code is \<open>HASH-\<close> followed by one character per draw (six by default). \<open>charAt\<close> is
  the empty string beyond the end of the string.
\<close>

definition characters :: string where
  "characters = ''ABCDEFGHIJKLMNOPQRSTUVWXYZ0123456789''"

definition charAt :: "string \<Rightarrow> nat \<Rightarrow> string" where
  "charAt s i = (if i < length s then [s ! i] else [])"

definition generateCouponCode :: "nat list \<Rightarrow> string" where
  "generateCouponCode draws = ''HASH-'' @ foldl (\<lambda>code i. code @ charAt characters i) [] draws"

subsection \<open>Responses of \<open>createReview\<close>\<close>

text \<open>
  One constructor per \<open>res.status(...).json(...)\<close> of the handler, in source order, and
  \<open>Server_error\<close> for an exception handed to \<open>next(error)\<close>.
\<close>

datatype response =
    Business_not_found
  | Business_not_active
  | Rate_limit_reached
  | Already_reviewed_today
  | Outside_geofence real jsnum
  | Gps_accuracy_too_low real
  | Mock_location_detected
  | Multiple_security_concerns
  | Review_posted_limit_reached review
  | Review_posted review coupon
  | Server_error string

subsection \<open>Fraud evaluation (the block "comprehensive security validation")\<close>

text \<open>
  Each check takes the log and returns the rejection, if any, together with the log after the
  check. A check that never rejects returns the log only.
\<close>

definition gpsAccuracyCheck ::
  "instant \<Rightarrow> review_request \<Rightarrow> log_entry list \<Rightarrow> response option \<times> log_entry list" where
  "gpsAccuracyCheck t q slog =
     (if truthy_num (q_locationAccuracy q) \<and> the (q_locationAccuracy q) > 50
      then (Some (Gps_accuracy_too_low (the (q_locationAccuracy q))),
            logSuspiciousBehavior t (q_user q) ''POOR_GPS_ACCURACY'' (q_business q)
              (M_accuracy (the (q_locationAccuracy q))) slog)
      else (None, slog))"

definition verificationTimeCheck ::
  "instant \<Rightarrow> review_request \<Rightarrow> log_entry list \<Rightarrow> log_entry list" where
  "verificationTimeCheck t q slog =
     (if q_verificationTime q \<noteq> None \<and> q_verificationTime q \<noteq> Some 30
      then logSuspiciousBehavior t (q_user q) ''VERIFICATION_TIME_MISMATCH'' (q_business q)
             (M_verificationTime (the (q_verificationTime q))) slog
      else slog)"

definition mockLocationCheck ::
  "instant \<Rightarrow> review_request \<Rightarrow> log_entry list \<Rightarrow> response option \<times> log_entry list" where
  "mockLocationCheck t q slog =
     (if q_isMockLocation q = Some True
      then (Some Mock_location_detected,
            logSuspiciousBehavior t (q_user q) ''MOCK_LOCATION_DETECTED'' (q_business q)
              (M_devicePlatform (q_devicePlatform q)) slog)
      else (None, slog))"

definition locationHistoryCheck ::
  "instant \<Rightarrow> review_request \<Rightarrow> log_entry list \<Rightarrow> log_entry list" where
  "locationHistoryCheck t q slog =
     (if q_locationHistoryCount q \<noteq> None \<and> the (q_locationHistoryCount q) < 5
      then logSuspiciousBehavior t (q_user q) ''INSUFFICIENT_LOCATION_HISTORY'' (q_business q)
             (M_locationHistoryCount (the (q_locationHistoryCount q))) slog
      else slog)"

text \<open>The loop over the client-reported anomalies logs one entry per anomaly.\<close>

definition logActivities ::
  "instant \<Rightarrow> review_request \<Rightarrow> client_activity list \<Rightarrow> log_entry list \<Rightarrow> log_entry list" where
  "logActivities t q activities slog =
     foldl (\<lambda>l activity.
              logSuspiciousBehavior t (q_user q) (''FRONTEND_'' @ a_type activity) (q_business q)
                (M_activity (a_timestamp activity)) l)
           slog activities"

definition suspiciousActivitiesCheck ::
  "instant \<Rightarrow> review_request \<Rightarrow> log_entry list \<Rightarrow> response option \<times> log_entry list" where
  "suspiciousActivitiesCheck t q slog =
     (case q_suspiciousActivities q of
        None \<Rightarrow> (None, slog)
      | Some activities \<Rightarrow>
          if length activities > 0
          then (let slog' = logActivities t q activities slog
                in if length activities \<ge> 3 then (Some Multiple_security_concerns, slog')
                   else (None, slog'))
          else (None, slog))"

text \<open>
  The device check counts the reviews of the same user, with the same device id, created
  since \<open>today\<close>.
\<close>

definition sameDeviceReviews :: "instant \<Rightarrow> review list \<Rightarrow> object_id \<Rightarrow> string \<Rightarrow> nat" where
  "sameDeviceReviews today rs userId devId =
     length (filter (\<lambda>r. r_user r = userId
                          \<and> map_option deviceId (sm_deviceFingerprint (r_securityMetadata r)) = Some devId
                          \<and> r_createdAt r \<ge> today) rs)"

definition deviceFingerprintCheck ::
  "instant \<Rightarrow> instant \<Rightarrow> review list \<Rightarrow> review_request \<Rightarrow> log_entry list \<Rightarrow> log_entry list" where
  "deviceFingerprintCheck t today rs q slog =
     (case q_deviceFingerprint q of
        None \<Rightarrow> slog
      | Some fp \<Rightarrow>
          (let n = sameDeviceReviews today rs (q_user q) (deviceId fp)
           in if n \<ge> 3
              then logSuspiciousBehavior t (q_user q) ''MULTIPLE_DEVICE_REVIEWS'' (q_business q)
                     (M_device (deviceId fp) n) slog
              else slog))"

text \<open>Sequencing: a rejection ends the evaluation, otherwise the next check runs.\<close>

definition and_then ::
  "response option \<times> log_entry list \<Rightarrow> (log_entry list \<Rightarrow> response option \<times> log_entry list)
     \<Rightarrow> response option \<times> log_entry list" where
  "and_then r f = (case r of (Some rejection, slog) \<Rightarrow> (Some rejection, slog) | (None, slog) \<Rightarrow> f slog)"

text \<open>The checks in the order of the source.\<close>

definition fraudEvaluation ::
  "instant \<Rightarrow> instant \<Rightarrow> review list \<Rightarrow> review_request \<Rightarrow> log_entry list
     \<Rightarrow> response option \<times> log_entry list" where
  "fraudEvaluation t today rs q log0 =
     and_then (gpsAccuracyCheck t q log0) (\<lambda>log1.
     and_then (None, verificationTimeCheck t q log1) (\<lambda>log2.
     and_then (mockLocationCheck t q log2) (\<lambda>log3.
     and_then (None, locationHistoryCheck t q log3) (\<lambda>log4.
     and_then (suspiciousActivitiesCheck t q log4) (\<lambda>log5.
     (None, deviceFingerprintCheck t today rs q log5))))))"


subsection \<open>Persisting the review\<close>

text \<open>
  \<open>Review.create\<close> runs the validators of the Review schema: rating within 1 to 5, comment of
  10 to 500 characters, emotion one of the schema's enum values or \<open>null\<close>. The controller
  passes \<open>emotion || null\<close>. A document that fails validation makes \<open>Review.create\<close> throw.
\<close>

definition or_null :: "string option \<Rightarrow> string option" where
  "or_null v = (case v of None \<Rightarrow> None | Some x \<Rightarrow> if x = [] then None else Some x)"

definition review_emotions :: "string list" where
  "review_emotions = [''loved'', ''happy'', ''okay'', ''disappointed'', ''frustrated'', ''amazing'']"

definition reviewSchemaValid :: "review_request \<Rightarrow> bool" where
  "reviewSchemaValid q \<longleftrightarrow>
     1 \<le> q_rating q \<and> q_rating q \<le> 5
     \<and> 10 \<le> length (q_comment q) \<and> length (q_comment q) \<le> 500
     \<and> (case or_null (q_emotion q) of None \<Rightarrow> True | Some em \<Rightarrow> em \<in> set review_emotions)"

text \<open>The document handed to \<open>Review.create\<close>; \<open>status\<close> takes the schema default.\<close>

definition newReview :: "env \<Rightarrow> review_request \<Rightarrow> business \<Rightarrow> jsnum \<Rightarrow> review" where
  "newReview e q b actualDistance =
     \<lparr> r_id = e_reviewId e,
       r_user = q_user q,
       r_business = q_business q,
       r_rating = q_rating q,
       r_comment = q_comment q,
       r_emotion = or_null (q_emotion q),
       r_coordinates = (q_longitude q, q_latitude q),
       r_verified = True,
       r_status = Rv_approved,
       r_couponAwarded = False,
       r_coupon = None,
       r_securityMetadata =
         \<lparr> sm_locationAccuracy = q_locationAccuracy q,
           sm_verificationTime = q_verificationTime q,
           sm_motionDetected = q_motionDetected q,
           sm_isMockLocation = q_isMockLocation q,
           sm_locationHistoryCount = q_locationHistoryCount q,
           sm_suspiciousActivitiesCount =
             (case q_suspiciousActivities q of None \<Rightarrow> 0 | Some activities \<Rightarrow> length activities),
           sm_deviceFingerprint = q_deviceFingerprint q,
           sm_devicePlatform = q_devicePlatform q,
           sm_actualDistance = actualDistance,
           sm_businessRadius = b_radius b,
           sm_submittedAt = e_created e \<rparr>,
       r_createdAt = e_created e \<rparr>"

subsection \<open>Recomputing the business rating\<close>

text \<open>
  \<open>Review.find({ business: businessId })\<close>, the mean of the ratings by \<open>reduce\<close>, and the
  three assignments saved with the business document.
\<close>

definition updateBusinessRating :: "object_id \<Rightarrow> state \<Rightarrow> state" where
  "updateBusinessRating businessId st =
     (let rs = filter (\<lambda>r. r_business r = businessId) (reviews st);
          avgRating = foldl (\<lambda>sum r. sum + r_rating r) 0 rs / real (length rs)
      in st\<lparr>businesses :=
               map (\<lambda>b. if b_id b = businessId
                         then b\<lparr>b_ratingAverage := avgRating, b_ratingCount := length rs,
                                b_reviewCount := length rs\<rparr>
                         else b)
                   (businesses st)\<rparr>)"

subsection \<open>Reward evaluation and minting\<close>

definition findCouponTemplate :: "object_id \<Rightarrow> coupon list \<Rightarrow> coupon option" where
  "findCouponTemplate businessId cs =
     find (\<lambda>c. c_business c = businessId \<and> c_type c = Business_type \<and> c_isActive c) cs"

definition redeemedCount :: "object_id \<Rightarrow> coupon list \<Rightarrow> nat" where
  "redeemedCount businessId cs =
     length (filter (\<lambda>c. c_business c = businessId \<and> c_type c = Review_reward
                          \<and> c_status c = Redeemed) cs)"

text \<open>
  The redemption-limit gate: a template whose \<open>redemptionLimit\<close> is not \<open>null\<close> and is
  reached by the count of redeemed review-reward coupons of the business.
\<close>

definition redemptionLimitReached :: "coupon option \<Rightarrow> object_id \<Rightarrow> coupon list \<Rightarrow> bool" where
  "redemptionLimitReached couponTemplate businessId cs =
     (case couponTemplate of
        None \<Rightarrow> False
      | Some tpl \<Rightarrow>
          (case c_redemptionLimit tpl of
             None \<Rightarrow> False
           | Some limit \<Rightarrow> real (redeemedCount businessId cs) \<ge> limit))"

definition default_description :: string where
  "default_description = ''Thank you for your review! Enjoy your reward. Valid for 2 hours.''"

text \<open>
  The coupon handed to \<open>Coupon.create\<close>, with "template values or defaults":
  \<open>couponTemplate?.rewardType || 'percentage'\<close>, \<open>couponTemplate?.rewardValue || 10\<close>,
  \<open>couponTemplate?.description || ...\<close>, \<open>couponTemplate?.minPurchaseAmount || 0\<close>,
  \<open>couponTemplate?.maxDiscountAmount || null\<close>, then the QR payload saved on it (its
  timestamp, a further clock reading, is taken to be that of \<open>validFrom\<close>). The fields not
  passed take the schema defaults.
\<close>

definition newCoupon :: "env \<Rightarrow> review_request \<Rightarrow> coupon option \<Rightarrow> coupon" where
  "newCoupon e q couponTemplate =
     (let couponCode = generateCouponCode (e_draws e);
          couponExpiry = setHours (e_tz e) (e_tz_change e) (e_expiry e)
                           (getHours (e_tz e) (e_tz_change e) (e_expiry e) + 2);
          rewardType = (case couponTemplate of None \<Rightarrow> Percentage | Some tpl \<Rightarrow> c_rewardType tpl);
          rewardValue = (case couponTemplate of None \<Rightarrow> 10
                         | Some tpl \<Rightarrow> if c_rewardValue tpl \<noteq> 0 then c_rewardValue tpl else 10);
          description = (case couponTemplate of None \<Rightarrow> default_description
                         | Some tpl \<Rightarrow> (case or_null (c_description tpl) of
                                          None \<Rightarrow> default_description | Some d \<Rightarrow> d));
          minPurchaseAmount = (case couponTemplate of None \<Rightarrow> 0
                               | Some tpl \<Rightarrow> if c_minPurchaseAmount tpl \<noteq> 0
                                            then c_minPurchaseAmount tpl else 0);
          maxDiscountAmount = (case couponTemplate of None \<Rightarrow> None
                               | Some tpl \<Rightarrow> if truthy_num (c_maxDiscountAmount tpl)
                                            then c_maxDiscountAmount tpl else None)
      in \<lparr> c_id = e_couponId e,
           c_business = q_business q,
           c_type = Review_reward,
           c_user = Some (q_user q),
           c_review = Some (e_reviewId e),
           c_code = couponCode,
           c_description = Some description,
           c_rewardType = rewardType,
           c_rewardValue = rewardValue,
           c_minPurchaseAmount = minPurchaseAmount,
           c_maxDiscountAmount = maxDiscountAmount,
           c_validFrom = Date (e_validFrom e),
           c_validUntil = Date couponExpiry,
           c_usageLimit = None,
           c_usageCount = 0,
           c_redemptionLimit = None,
           c_redemptionCount = 0,
           c_status = Active,
           c_isActive = True,
           c_redeemedAt = None,
           c_redeemedBy = None,
           c_qrCodeData =
             Some \<lparr> qr_type = ''coupon'', qr_couponId = Some (e_couponId e),
                    qr_code = couponCode, qr_businessId = q_business q,
                    qr_userId = q_user q, qr_reviewId = e_reviewId e,
                    qr_timestamp = e_validFrom e \<rparr> \<rparr>)"

text \<open>
  Reward evaluation, after the review is stored and the rating recomputed. When the gate is
  closed the handler answers 201 without a coupon. Otherwise \<open>Coupon.create\<close> stores the
  coupon (the unique index on \<open>code\<close> makes it throw when the generated code is already
  taken), the usage count of the template is incremented, and the review is marked
  \<open>couponAwarded\<close>. The two push notifications that follow change none of these stores.
\<close>

definition rewardEvaluation :: "env \<Rightarrow> review_request \<Rightarrow> review \<Rightarrow> state \<Rightarrow> response \<times> state" where
  "rewardEvaluation e q rv st =
     (let couponTemplate = findCouponTemplate (q_business q) (coupons st)
      in if redemptionLimitReached couponTemplate (q_business q) (coupons st)
         then (Review_posted_limit_reached rv, st)
         else
           (let coupon = newCoupon e q couponTemplate
            in if c_code coupon \<in> set (map c_code (coupons st))
               then (Server_error ''E11000 duplicate key'', st)
               else
                 (let cs1 = coupons st @ [coupon];
                      cs2 = (case couponTemplate of
                               None \<Rightarrow> cs1
                             | Some tpl \<Rightarrow>
                                 map (\<lambda>c. if c_id c = c_id tpl
                                           then c\<lparr>c_usageCount := c_usageCount c + 1\<rparr> else c) cs1);
                      rv' = rv\<lparr>r_couponAwarded := True, r_coupon := Some (c_id coupon)\<rparr>
                  in (Review_posted rv' coupon,
                      st\<lparr>coupons := cs2,
                         reviews := map (\<lambda>r. if r_id r = r_id rv then rv' else r) (reviews st)\<rparr>))))"

subsection \<open>The handler \<open>createReview\<close>\<close>

definition todayReviewCount :: "instant \<Rightarrow> object_id \<Rightarrow> review list \<Rightarrow> nat" where
  "todayReviewCount today userId rs =
     length (filter (\<lambda>r. r_user r = userId \<and> r_createdAt r \<ge> today) rs)"

definition existingReview :: "instant \<Rightarrow> object_id \<Rightarrow> object_id \<Rightarrow> review list \<Rightarrow> review option" where
  "existingReview today userId businessId rs =
     find (\<lambda>r. r_user r = userId \<and> r_business r = businessId \<and> r_createdAt r \<ge> today) rs"

text \<open>From \<open>Review.create\<close> on: the part of the handler after the fraud evaluation.\<close>

definition persistReview ::
  "env \<Rightarrow> review_request \<Rightarrow> business \<Rightarrow> jsnum \<Rightarrow> state \<Rightarrow> response \<times> state" where
  "persistReview e q b actualDistance st =
     (if \<not> reviewSchemaValid q then (Server_error ''ValidationError'', st)
      else
        (let rv = newReview e q b actualDistance;
             st1 = st\<lparr>reviews := reviews st @ [rv]\<rparr>;
             st2 = updateBusinessRating (q_business q) st1
         in rewardEvaluation e q rv st2))"

definition createReview :: "env \<Rightarrow> review_request \<Rightarrow> state \<Rightarrow> response \<times> state" where
  "createReview e q st =
     (case find (\<lambda>b. b_id b = q_business q) (businesses st) of
        None \<Rightarrow> (Business_not_found, st)
      | Some b \<Rightarrow>
          if b_status b \<noteq> Biz_active then (Business_not_active, st)
          else
            (let today = setHours0 (e_tz e) (e_now e);
                 n = todayReviewCount today (q_user q) (reviews st)
             in if n \<ge> 5
                then (Rate_limit_reached,
                      st\<lparr>suspiciousActivityLog :=
                           logSuspiciousBehavior (e_now e) (q_user q) ''RATE_LIMIT_EXCEEDED''
                             (q_business q) (M_reviewCount n) (suspiciousActivityLog st)\<rparr>)
                else
                  (case existingReview today (q_user q) (q_business q) (reviews st) of
                     Some _ \<Rightarrow> (Already_reviewed_today, st)
                   | None \<Rightarrow>
                       (let businessLat = snd (b_coordinates b);
                            businessLon = fst (b_coordinates b);
                            withinGeofence =
                              isWithinGeofence (Num (q_latitude q)) (Num (q_longitude q))
                                (Num businessLat) (Num businessLon) (Num (b_radius b));
                            actualDistance =
                              calculateDistance (Num (q_latitude q)) (Num (q_longitude q))
                                (Num businessLat) (Num businessLon)
                        in if \<not> withinGeofence
                           then (Outside_geofence (b_radius b) actualDistance,
                                 st\<lparr>suspiciousActivityLog :=
                                      logSuspiciousBehavior (e_now e) (q_user q)
                                        ''GEOFENCE_VIOLATION'' (q_business q)
                                        (M_distance actualDistance (b_radius b))
                                        (suspiciousActivityLog st)\<rparr>)
                           else
                             (case fraudEvaluation (e_now e) today (reviews st) q
                                     (suspiciousActivityLog st) of
                                (Some rejection, slog) \<Rightarrow>
                                  (rejection, st\<lparr>suspiciousActivityLog := slog\<rparr>)
                              | (None, slog) \<Rightarrow>
                                  persistReview e q b actualDistance
                                    (st\<lparr>suspiciousActivityLog := slog\<rparr>))))))"

section \<open>Coupon lifecycle\<close>


subsection \<open>\<open>scanAndRedeemCoupon\<close> (controllers/businessCoupon.controller.js)\<close>







subsection \<open>\<open>redeemCoupon\<close> (the coupon controller, route \<open>POST /api/coupons/:id/redeem\<close>)\<close>




subsection \<open>\<open>expireCoupons\<close> (the five-minute job)\<close>



subsection \<open>\<open>updateCoupon\<close> (controllers/businessCoupon.controller.js)\<close>









subsection \<open>Runs of the lifecycle operations\<close>



section \<open>Vocabulary of the properties\<close>

subsection \<open>Entries handed to the suspicious-activity recorder\<close>

text \<open>
  The entry a check of a request forwards to the recorder, and the log after a sequence of
  entries has been recorded one by one.
\<close>

definition signal :: "instant \<Rightarrow> review_request \<Rightarrow> string \<Rightarrow> event_metadata \<Rightarrow> log_entry" where
  "signal t q eventType metadata =
     \<lparr> le_userId = q_user q, le_eventType = eventType, le_businessId = q_business q,
       le_metadata = metadata, le_timestamp = t \<rparr>"

definition record_all :: "log_entry list \<Rightarrow> log_entry list \<Rightarrow> log_entry list" where
  "record_all slog entries =
     foldl (\<lambda>l en. logSuspiciousBehavior (le_timestamp en) (le_userId en) (le_eventType en)
                     (le_businessId en) (le_metadata en) l)
           slog entries"

text \<open>The signals of the individual rules, each empty when its rule does not fire.\<close>

definition accuracyRejects :: "review_request \<Rightarrow> bool" where
  "accuracyRejects q = (case q_locationAccuracy q of None \<Rightarrow> False | Some a \<Rightarrow> a > 50)"

definition anomalyCount :: "review_request \<Rightarrow> nat" where
  "anomalyCount q = (case q_suspiciousActivities q of None \<Rightarrow> 0 | Some activities \<Rightarrow> length activities)"

definition verificationTimeSignals :: "instant \<Rightarrow> review_request \<Rightarrow> log_entry list" where
  "verificationTimeSignals t q =
     (case q_verificationTime q of
        None \<Rightarrow> []
      | Some v \<Rightarrow> if v = 30 then []
                 else [signal t q ''VERIFICATION_TIME_MISMATCH'' (M_verificationTime v)])"

definition historySignals :: "instant \<Rightarrow> review_request \<Rightarrow> log_entry list" where
  "historySignals t q =
     (case q_locationHistoryCount q of
        None \<Rightarrow> []
      | Some n \<Rightarrow> if n < 5
                 then [signal t q ''INSUFFICIENT_LOCATION_HISTORY'' (M_locationHistoryCount n)]
                 else [])"

definition anomalySignals :: "instant \<Rightarrow> review_request \<Rightarrow> log_entry list" where
  "anomalySignals t q =
     (case q_suspiciousActivities q of
        None \<Rightarrow> []
      | Some activities \<Rightarrow>
          map (\<lambda>a. signal t q (''FRONTEND_'' @ a_type a) (M_activity (a_timestamp a))) activities)"

definition deviceSignals :: "instant \<Rightarrow> instant \<Rightarrow> review list \<Rightarrow> review_request \<Rightarrow> log_entry list" where
  "deviceSignals t today rs q =
     (case q_deviceFingerprint q of
        None \<Rightarrow> []
      | Some fp \<Rightarrow>
          if sameDeviceReviews today rs (q_user q) (deviceId fp) \<ge> 3
          then [signal t q ''MULTIPLE_DEVICE_REVIEWS''
                  (M_device (deviceId fp) (sameDeviceReviews today rs (q_user q) (deviceId fp)))]
          else [])"

subsection \<open>Concrete documents and requests\<close>

text \<open>
  The end-to-end scenario of the specification: a business at (40.7128, -74.0060) with
  radius 50, and a five-star review submitted from the same coordinates with clean
  security metadata.
\<close>

definition cafe :: business where
  "cafe = \<lparr> b_id = 1, b_owner = 9, b_status = Biz_active, b_coordinates = (-74.006, 40.7128),
            b_radius = 50, b_ratingAverage = 0, b_ratingCount = 0, b_reviewCount = 0 \<rparr>"

definition clean_request :: review_request where
  "clean_request =
     \<lparr> q_user = 2, q_business = 1, q_rating = 5,
       q_comment = ''Great coffee and friendly staff'', q_emotion = None,
       q_latitude = 40.7128, q_longitude = -74.006,
       q_locationAccuracy = Some 10, q_verificationTime = Some 30,
       q_motionDetected = Some True, q_isMockLocation = Some False,
       q_locationHistoryCount = Some 10, q_suspiciousActivities = Some [],
       q_deviceFingerprint = None, q_devicePlatform = Some ''ios'' \<rparr>"

text \<open>
  A server five and a half hours ahead of UTC, in a zone without daylight-saving time; the
  local day of the request begins at instant 66600000.
\<close>

definition env0 :: env where
  "env0 = \<lparr> e_tz = 19800000, e_tz_change = None,
            e_now = 90000000, e_created = 90000001, e_expiry = 90000002,
            e_validFrom = 90000003, e_draws = [0, 1, 2, 3, 4, 5],
            e_reviewId = 100, e_couponId = 200 \<rparr>"

text \<open>
  A server in New York on 10 March 2024: five hours behind UTC until 07:00 UTC (02:00 local
  time), four hours behind from then on. The request arrives at 06:30 UTC, 01:30 local time.
\<close>

definition env_dst :: env where
  "env_dst = \<lparr> e_tz = - 18000000, e_tz_change = Some (1710054000000, - 14400000),
               e_now = 1710052200000, e_created = 1710052200001, e_expiry = 1710052200002,
               e_validFrom = 1710052200003, e_draws = [0, 1, 2, 3, 4, 5],
               e_reviewId = 100, e_couponId = 200 \<rparr>"

definition store0 :: state where
  "store0 = \<lparr> reviews = [], businesses = [cafe], coupons = [], suspiciousActivityLog = [] \<rparr>"


text \<open>
  A request that carries none of the fields location accuracy, mock-location flag,
  location-history count, anomalies, device fingerprint, but a verification time of 45
  seconds.
\<close>

definition bare_request :: review_request where
  "bare_request =
     clean_request
       \<lparr> q_locationAccuracy := None, q_verificationTime := None, q_motionDetected := None,
         q_isMockLocation := None, q_locationHistoryCount := None,
         q_suspiciousActivities := None, q_deviceFingerprint := None,
         q_devicePlatform := None \<rparr>"

definition timed_request :: review_request where
  "timed_request = bare_request\<lparr>q_verificationTime := Some 45\<rparr>"

text \<open>
  A request without security metadata whose emotion is one that the request schema accepts
  and the enum of the Review model does not.
\<close>

definition sad_request :: review_request where
  "sad_request = bare_request\<lparr>q_emotion := Some ''sad''\<rparr>"

subsection \<open>Stages of a submission\<close>

text \<open>
  A submission reaches the fraud evaluation when its business exists and is active, the
  user has fewer than five reviews today, none of them for this business, and the submitted
  position is inside the geofence.
\<close>

definition reachesFraudEvaluation :: "env \<Rightarrow> review_request \<Rightarrow> state \<Rightarrow> business \<Rightarrow> bool" where
  "reachesFraudEvaluation e q st b \<longleftrightarrow>
     find (\<lambda>b. b_id b = q_business q) (businesses st) = Some b
     \<and> b_status b = Biz_active
     \<and> todayReviewCount (setHours0 (e_tz e) (e_now e)) (q_user q) (reviews st) < 5
     \<and> existingReview (setHours0 (e_tz e) (e_now e)) (q_user q) (q_business q) (reviews st) = None
     \<and> isWithinGeofence (Num (q_latitude q)) (Num (q_longitude q))
          (Num (snd (b_coordinates b))) (Num (fst (b_coordinates b))) (Num (b_radius b))"

text \<open>The distance the handler stores with the review.\<close>

definition actualDistance :: "review_request \<Rightarrow> business \<Rightarrow> jsnum" where
  "actualDistance q b =
     calculateDistance (Num (q_latitude q)) (Num (q_longitude q))
       (Num (snd (b_coordinates b))) (Num (fst (b_coordinates b)))"

text \<open>The review a submission creates: the request's data, verified, approved by default.\<close>

definition is_created_review :: "env \<Rightarrow> review_request \<Rightarrow> review \<Rightarrow> bool" where
  "is_created_review e q rv \<longleftrightarrow>
     r_id rv = e_reviewId e \<and> r_user rv = q_user q \<and> r_business rv = q_business q
     \<and> r_rating rv = q_rating q \<and> r_comment rv = q_comment q \<and> r_verified rv
     \<and> r_status rv = Rv_approved \<and> r_createdAt rv = e_created e"

text \<open>
  The invariant of the review store: no two reviews of the same user for the same business
  carry creation times of the same calendar day, the days of the offset \<open>tz\<close>.
\<close>

definition review_day_key :: "int \<Rightarrow> review \<Rightarrow> object_id \<times> object_id \<times> instant" where
  "review_day_key tz r = (r_user r, r_business r, setHours0 tz (r_createdAt r))"

definition one_review_per_day :: "int \<Rightarrow> review list \<Rightarrow> bool" where
  "one_review_per_day tz rs = distinct (map (review_day_key tz) rs)"

text \<open>
  The rating aggregate as the specification words it in its data model: the mean of the
  ratings of the approved reviews of the business. And as the source computes it: the mean
  over all reviews of the business.
\<close>

definition mean :: "real list \<Rightarrow> real" where
  "mean xs = sum_list xs / real (length xs)"

definition approvedRatings :: "object_id \<Rightarrow> review list \<Rightarrow> real list" where
  "approvedRatings businessId rs =
     map r_rating (filter (\<lambda>r. r_business r = businessId \<and> r_status r = Rv_approved) rs)"

definition allRatings :: "object_id \<Rightarrow> review list \<Rightarrow> real list" where
  "allRatings businessId rs = map r_rating (filter (\<lambda>r. r_business r = businessId) rs)"

text \<open>The length of the validity window of a coupon, when both ends are set.\<close>

definition validityWindow :: "coupon \<Rightarrow> int option" where
  "validityWindow c =
     (case c_validUntil c of
        Date u \<Rightarrow> (case c_validFrom c of Date f \<Rightarrow> Some (u - f) | _ \<Rightarrow> None)
      | _ \<Rightarrow> None)"

subsection \<open>More concrete documents\<close>

text \<open>An earlier review of user 2 for the business, created at the given instant.\<close>

definition earlier_review :: "object_id \<Rightarrow> object_id \<Rightarrow> instant \<Rightarrow> review" where
  "earlier_review rid businessId t =
     (newReview (env0\<lparr>e_reviewId := rid, e_created := t\<rparr>)
        (clean_request\<lparr>q_business := businessId\<rparr>) cafe (Num 0))"

text \<open>
  A day on which user 2 has already posted five reviews, the first of them for business 1.
\<close>

definition busy_day_store :: state where
  "busy_day_store =
     store0\<lparr>reviews := [earlier_review 11 1 86400010, earlier_review 12 2 86400020,
                        earlier_review 13 3 86400030, earlier_review 14 4 86400040,
                        earlier_review 15 5 86400050]\<rparr>"

text \<open>A day on which user 2 has already reviewed business 1, and a different second review.\<close>

definition reviewed_today_store :: state where
  "reviewed_today_store = store0\<lparr>reviews := [earlier_review 11 1 86400010]\<rparr>"

definition second_request :: review_request where
  "second_request =
     clean_request\<lparr>q_rating := 1, q_comment := ''On second thought it was terrible''\<rparr>"

text \<open>The business with one earlier one-star review that moderation has rejected.\<close>

definition moderated_store :: state where
  "moderated_store =
     store0\<lparr>reviews := [(earlier_review 11 1 10)
                          \<lparr>r_user := 3, r_rating := 1, r_status := Rv_rejected\<rparr>]\<rparr>"

text \<open>
  The business with an active template for a free item whose \<open>rewardValue\<close> is 0, and with
  a template that allows two redemptions when two coupons have been redeemed.
\<close>

definition free_item_template :: coupon where
  "free_item_template =
     redeemed_template\<lparr>c_id := 50, c_code := ''FREECAKE'', c_rewardType := Free_item,
                       c_rewardValue := 0, c_status := Active\<rparr>"

definition free_item_store :: state where
  "free_item_store = store0\<lparr>coupons := [free_item_template]\<rparr>"

definition limited_template :: coupon where
  "limited_template =
     redeemed_template\<lparr>c_id := 51, c_code := ''TWOONLY'', c_rewardType := Fixed,
                       c_rewardValue := 3, c_status := Active, c_redemptionLimit := Some 2\<rparr>"

definition redeemed_reward :: "object_id \<Rightarrow> string \<Rightarrow> coupon" where
  "redeemed_reward cid code =
     (newCoupon (env0\<lparr>e_couponId := cid\<rparr>) clean_request (Some limited_template))
       \<lparr>c_code := code, c_status := Redeemed\<rparr>"

definition limit_reached_store :: state where
  "limit_reached_store =
     store0\<lparr>coupons := [limited_template, redeemed_reward 61 ''HASH-AAAAAA'',
                        redeemed_reward 62 ''HASH-BBBBBB'']\<rparr>"

subsection \<open>Status history of a coupon\<close>













section \<open>Properties of the coupon utilities\<close>






section \<open>Properties of the geolocation functions\<close>

subsection \<open>Rounding\<close>

lemma round_half_even_eqI:
  assumes "\<bar>y - of_int m\<bar> < 1 / 2"
  shows "round_half_even y = m"
proof -
  have "\<lfloor>y\<rfloor> = m \<or> \<lfloor>y\<rfloor> = m - 1"
    using assms by (auto simp: floor_eq_iff abs_less_iff)
  then show ?thesis
  proof
    assume f: "\<lfloor>y\<rfloor> = m"
    have "y - of_int m < 1 / 2" using assms by linarith
    then show ?thesis by (simp add: round_half_even_def Let_def f)
  next
    assume f: "\<lfloor>y\<rfloor> = m - 1"
    have "- (1 / 2) < y - of_int m" using assms by linarith
    then have "\<not> y - of_int (m - 1) < 1 / 2" and "1 / 2 < y - of_int (m - 1)"
      by simp_all
    then show ?thesis by (simp only: round_half_even_def Let_def f if_False if_True)
  qed
qed

lemma round_half_even_bounds:
  "\<lfloor>y\<rfloor> \<le> round_half_even y" "round_half_even y \<le> \<lceil>y\<rceil>"
proof -
  show "\<lfloor>y\<rfloor> \<le> round_half_even y"
    by (simp add: round_half_even_def Let_def)
  have "\<lfloor>y\<rfloor> + 1 \<le> \<lceil>y\<rceil>" if "0 < y - of_int \<lfloor>y\<rfloor>"
    using that by (simp add: ceiling_altdef)
  then show "round_half_even y \<le> \<lceil>y\<rceil>"
    by (auto simp: round_half_even_def Let_def)
qed

lemma round_half_even_abs_le:
  assumes "\<bar>y\<bar> \<le> of_int N"
  shows "\<bar>round_half_even y\<bar> \<le> N"
proof -
  have "\<lceil>y\<rceil> \<le> N" using assms by (simp add: ceiling_le_iff abs_le_iff)
  moreover have "- N \<le> \<lfloor>y\<rfloor>" using assms by (simp add: le_floor_iff abs_le_iff)
  ultimately show ?thesis
    using round_half_even_bounds[of y] by linarith
qed

lemma binade:
  assumes "x \<noteq> 0"
  shows "2 powi \<lfloor>log 2 \<bar>x\<bar>\<rfloor> \<le> \<bar>x\<bar>" "\<bar>x\<bar> < 2 powi (\<lfloor>log 2 \<bar>x\<bar>\<rfloor> + 1)"
proof -
  let ?e = "\<lfloor>log 2 \<bar>x\<bar>\<rfloor>"
  have a: "2 powr real_of_int ?e = (2::real) powi ?e"
    by (rule powr_real_of_int') simp_all
  have b: "2 powr (real_of_int ?e + 1) = (2::real) powi (?e + 1)"
    using powr_real_of_int'[of 2 "?e + 1"] by simp
  have "2 powr (real_of_int ?e) \<le> \<bar>x\<bar> \<and> \<bar>x\<bar> < 2 powr (real_of_int ?e + 1)"
    using floor_log_eq_powr_iff[of "\<bar>x\<bar>" 2 ?e] assms by simp
  then show "2 powi ?e \<le> \<bar>x\<bar>" "\<bar>x\<bar> < 2 powi (?e + 1)"
    unfolding a b by simp_all
qed

lemma binade_eqI:
  assumes "2 powi e \<le> \<bar>x\<bar>" and "\<bar>x\<bar> < 2 powi (e + 1)"
  shows "\<lfloor>log 2 \<bar>x\<bar>\<rfloor> = e"
proof -
  have pos: "0 < \<bar>x\<bar>" using assms(1) by (smt (verit) zero_less_power_int)
  have a: "2 powr real_of_int e = (2::real) powi e"
    by (rule powr_real_of_int') simp_all
  have b: "2 powr (real_of_int e + 1) = (2::real) powi (e + 1)"
    using powr_real_of_int'[of 2 "e + 1"] by simp
  have "2 powr (real_of_int e) \<le> \<bar>x\<bar> \<and> \<bar>x\<bar> < 2 powr (real_of_int e + 1)"
    unfolding a b using assms by simp
  then show ?thesis
    using floor_log_eq_powr_iff[of "\<bar>x\<bar>" 2 e] pos by simp
qed

lemma nearest_double_eqI:
  assumes "2 powi e \<le> \<bar>x\<bar>" and "\<bar>x\<bar> < 2 powi (e + 1)" and "- 1022 \<le> e"
    and "\<bar>x - of_int m * 2 powi (e - 52)\<bar> < 2 powi (e - 53)"
  shows "nearest_double x = of_int m * 2 powi (e - 52)"
proof -
  have nz: "x \<noteq> 0" using assms(1) by (smt (verit) zero_less_power_int)
  have q: "quantum_exponent x = e - 52"
    using binade_eqI[OF assms(1,2)] assms(3) by (simp add: quantum_exponent_def)
  have qpos: "(0::real) < 2 powi (e - 52)" by simp
  have half: "(2::real) powi (e - 53) = 2 powi (e - 52) / 2"
    by (simp add: power_int_diff)
  have "x / 2 powi (e - 52) - of_int m = (x - of_int m * 2 powi (e - 52)) / 2 powi (e - 52)"
    by (simp add: field_simps)
  then have "\<bar>x / 2 powi (e - 52) - of_int m\<bar> = \<bar>x - of_int m * 2 powi (e - 52)\<bar> / 2 powi (e - 52)"
    using qpos by (simp only: abs_divide abs_of_pos)
  also have "\<dots> < 1 / 2"
    using assms(4) qpos unfolding half by (simp add: field_simps)
  finally have "round_half_even (x / 2 powi (e - 52)) = m"
    by (rule round_half_even_eqI)
  then show ?thesis
    using nz by (simp add: nearest_double_def q)
qed

lemma nearest_double_abs_le:
  assumes "\<bar>x\<bar> \<le> 2 powi k" and "- 1022 \<le> k"
  shows "\<bar>nearest_double x\<bar> \<le> 2 powi k"
proof (cases "x = 0")
  case True
  then show ?thesis by (simp add: nearest_double_def)
next
  case False
  let ?e = "\<lfloor>log 2 \<bar>x\<bar>\<rfloor>"
  let ?q = "quantum_exponent x"
  have "(2::real) powi ?e \<le> 2 powi k"
    using binade(1)[OF False] assms(1) by linarith
  then have "?e \<le> k"
    using power_int_strict_increasing[of k ?e "2::real"] by (cases "?e \<le> k") simp_all
  then have K: "0 \<le> k - ?q" using assms(2) by (simp add: quantum_exponent_def)
  have qpos: "(0::real) < 2 powi ?q" by simp
  have pw: "(2::real) powi k = of_int (2 ^ nat (k - ?q)) * 2 powi ?q"
  proof -
    have "(2::real) powi k = 2 powi (k - ?q) * 2 powi ?q"
      by (simp flip: power_int_add)
    also have "(2::real) powi (k - ?q) = 2 ^ nat (k - ?q)"
      using K by (simp add: power_int_def)
    finally show ?thesis by simp
  qed
  have "\<bar>x / 2 powi ?q\<bar> = \<bar>x\<bar> / 2 powi ?q"
    using qpos by (simp only: abs_divide abs_of_pos)
  also have "\<dots> \<le> of_int (2 ^ nat (k - ?q))"
    using assms(1) qpos unfolding pw by (simp add: field_simps)
  finally have "\<bar>round_half_even (x / 2 powi ?q)\<bar> \<le> 2 ^ nat (k - ?q)"
    by (rule round_half_even_abs_le)
  then have "\<bar>real_of_int (round_half_even (x / 2 powi ?q))\<bar> \<le> of_int (2 ^ nat (k - ?q))"
    by (metis of_int_abs of_int_le_iff)
  then have "\<bar>real_of_int (round_half_even (x / 2 powi ?q))\<bar> * 2 powi ?q
               \<le> of_int (2 ^ nat (k - ?q)) * 2 powi ?q"
    using qpos by (simp only: mult_le_cancel_right_pos)
  then show ?thesis
    using False qpos unfolding pw by (simp add: nearest_double_def abs_mult)
qed

lemma nearest_double_0 [simp]: "nearest_double 0 = 0"
  by (simp add: nearest_double_def)

lemma nearest_double_1 [simp]: "nearest_double 1 = 1"
  using nearest_double_eqI[of 0 1 "2 ^ 52"] by (simp add: power_int_minus)

lemma js_number_finite:
  assumes "\<bar>x\<bar> \<le> 2 ^ 1023"
  shows "js_number x = Num (nearest_double x)"
proof -
  have "\<bar>nearest_double x\<bar> \<le> 2 powi 1023"
    by (rule nearest_double_abs_le) (use assms in simp_all)
  then have "\<bar>nearest_double x\<bar> < 2 ^ 1024"
    by simp
  then show ?thesis
    by (simp add: js_number_def Let_def abs_less_iff)
qed

lemma js_number_0 [simp]: "js_number 0 = Num 0"
  by (simp add: js_number_finite)

lemma js_number_1 [simp]: "js_number 1 = Num 1"
  by (simp add: js_number_finite)


subsection \<open>\<open>NaN\<close> arguments and coinciding points\<close>

text \<open>
  A \<open>NaN\<close> among the arguments propagates to the distance, and the comparison is then
  false; no operation of the two functions throws.
\<close>

lemma js_NaN_right [simp]:
  "js_add x NaN = NaN" "js_sub x NaN = NaN" "js_mul x NaN = NaN" "js_div x NaN = NaN"
  "js_atan2 x NaN = NaN" "\<not> js_le x NaN"
  by (cases x; simp)+

lemma calculateDistance_NaN:
  "calculateDistance NaN lon1 lat2 lon2 = NaN" "calculateDistance lat1 NaN lat2 lon2 = NaN"
  "calculateDistance lat1 lon1 NaN lon2 = NaN" "calculateDistance lat1 lon1 lat2 NaN = NaN"
  by (simp_all add: calculateDistance_def Let_def)

lemma isWithinGeofence_NaN:
  "\<not> isWithinGeofence NaN userLon businessLat businessLon radius"
  "\<not> isWithinGeofence userLat NaN businessLat businessLon radius"
  "\<not> isWithinGeofence userLat userLon NaN businessLon radius"
  "\<not> isWithinGeofence userLat userLon businessLat NaN radius"
  "\<not> isWithinGeofence userLat userLon businessLat businessLon NaN"
  by (simp_all add: isWithinGeofence_def Let_def calculateDistance_NaN)

text \<open>
  Between a point and itself the computed distance is \<open>0\<close>, whatever the rounding of the
  intermediate values.
\<close>

lemma calculateDistance_same_point:
  assumes "\<bar>lat\<bar> \<le> 90"
  shows "calculateDistance (Num lat) (Num lon) (Num lat) (Num lon) = Num 0"
proof -
  define P :: real where "P = 884279719003555 / 281474976710656"
  define u where "u = nearest_double (lat * P)"
  define p where "p = nearest_double (u / 180)"
  define c where "c = nearest_double (cos p)"
  define cc where "cc = nearest_double (c * c)"
  have P: "0 \<le> P" "P \<le> 4" by (simp_all add: P_def)
  have "\<bar>lat * P\<bar> \<le> 90 * 4"
    unfolding abs_mult using assms P by (intro mult_mono) simp_all
  then have lp: "\<bar>lat * P\<bar> \<le> 2 powi 9" by simp
  then have u9: "\<bar>u\<bar> \<le> 2 powi 9"
    unfolding u_def by (rule nearest_double_abs_le) simp
  have c1: "\<bar>c\<bar> \<le> 2 powi 0"
    unfolding c_def by (rule nearest_double_abs_le) simp_all
  then have "\<bar>c * c\<bar> \<le> 1 * 1"
    unfolding abs_mult by (intro mult_mono) simp_all
  have s1: "js_mul (Num lat) js_PI = Num u"
    using lp by (simp add: js_PI_def u_def P_def js_number_finite)
  have s2: "js_div (Num u) (Num 180) = Num p"
    using u9 by (simp add: p_def js_number_finite)
  have s3: "js_cos (Num p) = Num c"
    by (simp add: c_def js_number_finite order_trans[OF abs_cos_le_one])
  have s4: "js_mul (Num c) (Num c) = Num cc"
    using \<open>\<bar>c * c\<bar> \<le> 1 * 1\<close> by (simp add: cc_def js_number_finite)
  have z: "js_sub (Num x) (Num x) = Num 0" "js_mul (Num 0) js_PI = Num 0"
    "js_div (Num 0) (Num 180) = Num 0" "js_div (Num 0) (Num 2) = Num 0"
    "js_sin (Num 0) = Num 0" "js_mul (Num x) (Num 0) = Num 0" "js_add (Num 0) (Num 0) = Num 0"
    "js_sqrt (Num 0) = Num 0" "js_sub (Num 1) (Num 0) = Num 1" "js_sqrt (Num 1) = Num 1"
    "js_atan2 (Num 0) (Num 1) = Num 0" for x
    by (simp_all add: js_PI_def atan2_def)
  show ?thesis
    unfolding calculateDistance_def Let_def by (simp only: s1 s2 s3 s4 z)
qed

subsection \<open>The formula in exact arithmetic\<close>

text \<open>
  Without rounding, the expression \<open>R * (2 * atan2 (sqrt a) (sqrt (1 - a)))\<close> of the code is
  the haversine distance: \<open>a\<close> lies between \<open>0\<close> and \<open>1\<close>, where the angle of
  \<open>(sqrt (1 - a), sqrt a)\<close> is \<open>arcsin (sqrt a)\<close>.
\<close>

lemma sin_half_square: "sin (x / 2) * sin (x / 2) = (1 - cos x) / (2::real)"
proof -
  have "cos x = cos (2 * (x / 2))" by simp
  also have "\<dots> = 1 - 2 * (sin (x / 2))\<^sup>2" by (rule cos_double_sin)
  finally show ?thesis by (simp add: power2_eq_square)
qed

lemma haversine_a_as_dot_product:
  "haversine_a lat1 lon1 lat2 lon2 =
     (1 - sin (radians lat1) * sin (radians lat2)
        - cos (radians lat1) * cos (radians lat2) * cos (radians lon2 - radians lon1)) / 2"
proof -
  have "haversine_a lat1 lon1 lat2 lon2 =
          (1 - cos (radians lat2 - radians lat1)) / 2
          + cos (radians lat1) * cos (radians lat2) * ((1 - cos (radians lon2 - radians lon1)) / 2)"
    unfolding haversine_a_def hav_def power2_eq_square by (simp only: sin_half_square)
  also have "\<dots> = (1 - sin (radians lat1) * sin (radians lat2)
        - cos (radians lat1) * cos (radians lat2) * cos (radians lon2 - radians lon1)) / 2"
    by (simp add: cos_diff[of "radians lat2" "radians lat1"] field_simps)
  finally show ?thesis .
qed

lemma unit_vectors_dot_bound: "\<bar>sin p * sin q + cos p * cos q * cos d\<bar> \<le> (1::real)"
proof -
  have "\<bar>sin p * sin q + cos p * cos q * cos d\<bar>
          \<le> \<bar>sin p * sin q\<bar> + \<bar>cos p * cos q * cos d\<bar>"
    by (rule abs_triangle_ineq)
  also have "\<bar>cos p * cos q * cos d\<bar> = \<bar>cos p * cos q\<bar> * \<bar>cos d\<bar>"
    by (simp add: abs_mult)
  also have "\<bar>sin p * sin q\<bar> + \<bar>cos p * cos q\<bar> * \<bar>cos d\<bar> \<le> \<bar>sin p * sin q\<bar> + \<bar>cos p * cos q\<bar>"
    by (simp add: mult_left_le)
  also have "\<dots> \<le> 1"
  proof -
    have s: "2 * \<bar>sin p * sin q\<bar> \<le> (sin p)\<^sup>2 + (sin q)\<^sup>2"
      using sum_squares_bound[of "\<bar>sin p\<bar>" "\<bar>sin q\<bar>"] by (simp add: abs_mult)
    have c: "2 * \<bar>cos p * cos q\<bar> \<le> (cos p)\<^sup>2 + (cos q)\<^sup>2"
      using sum_squares_bound[of "\<bar>cos p\<bar>" "\<bar>cos q\<bar>"] by (simp add: abs_mult)
    have "(sin p)\<^sup>2 + (cos p)\<^sup>2 = 1" "(sin q)\<^sup>2 + (cos q)\<^sup>2 = 1" by simp_all
    with s c show ?thesis by linarith
  qed
  finally show ?thesis .
qed

lemma haversine_a_range:
  "0 \<le> haversine_a lat1 lon1 lat2 lon2" "haversine_a lat1 lon1 lat2 lon2 \<le> 1"
  using unit_vectors_dot_bound[of "radians lat1" "radians lat2" "radians lon2 - radians lon1"]
  unfolding haversine_a_as_dot_product by (simp_all add: abs_le_iff)

lemma atan2_sqrt_arcsin:
  assumes "0 \<le> a" "a \<le> 1"
  shows "atan2 (sqrt a) (sqrt (1 - a)) = arcsin (sqrt a)"
proof (cases "a = 1")
  case True
  then show ?thesis by (simp add: atan2_def)
next
  case False
  with assms have lt: "a < 1" by simp
  then have pos: "sqrt (1 - a) > 0" by simp
  have s: "-1 < sqrt a" "sqrt a < 1" using assms lt
    by (smt (verit) real_sqrt_ge_zero, simp)
  have "(sqrt a)\<^sup>2 = a" using assms by simp
  with arcsin_arctan[OF s] have "arcsin (sqrt a) = arctan (sqrt a / sqrt (1 - a))" by simp
  with pos show ?thesis by (simp add: atan2_def)
qed

lemma haversine_formula_exact:
  "6371000 * (2 * atan2 (sqrt (haversine_a lat1 lon1 lat2 lon2))
                        (sqrt (1 - haversine_a lat1 lon1 lat2 lon2)))
     = haversine_distance lat1 lon1 lat2 lon2"
  using atan2_sqrt_arcsin[OF haversine_a_range] by (simp add: haversine_distance_def)



subsection \<open>Polynomial bounds of the sine and the cosine\<close>








subsection \<open>The computation between \<open>(8, 0)\<close> and \<open>(-8, -180)\<close>\<close>






















section \<open>Properties of the fraud evaluation\<close>

lemma record_all_append:
  "record_all slog (xs @ ys) = record_all (record_all slog xs) ys"
  by (simp add: record_all_def)

lemma record_all_Nil: "record_all slog [] = slog"
  by (simp add: record_all_def)




lemma record_all_single:
  "record_all slog [signal t q ev md]
     = logSuspiciousBehavior t (q_user q) ev (q_business q) md slog"
  by (simp add: record_all_def signal_def)

lemma logActivities_record_all:
  "logActivities t q activities slog
     = record_all slog
         (map (\<lambda>a. signal t q (''FRONTEND_'' @ a_type a) (M_activity (a_timestamp a))) activities)"
  by (simp add: logActivities_def record_all_def signal_def foldl_map)

lemma gpsAccuracyCheck_eq:
  "gpsAccuracyCheck t q slog =
     (if accuracyRejects q
      then (Some (Gps_accuracy_too_low (the (q_locationAccuracy q))),
            record_all slog
              [signal t q ''POOR_GPS_ACCURACY'' (M_accuracy (the (q_locationAccuracy q)))])
      else (None, slog))"
  by (auto simp: gpsAccuracyCheck_def accuracyRejects_def truthy_num_def record_all_single
           split: option.splits)

lemma verificationTimeCheck_eq:
  "verificationTimeCheck t q slog = record_all slog (verificationTimeSignals t q)"
  by (auto simp: verificationTimeCheck_def verificationTimeSignals_def record_all_single
        record_all_Nil split: option.splits)

lemma mockLocationCheck_eq:
  "mockLocationCheck t q slog =
     (if q_isMockLocation q = Some True
      then (Some Mock_location_detected,
            record_all slog
              [signal t q ''MOCK_LOCATION_DETECTED'' (M_devicePlatform (q_devicePlatform q))])
      else (None, slog))"
  by (simp add: mockLocationCheck_def record_all_single)

lemma locationHistoryCheck_eq:
  "locationHistoryCheck t q slog = record_all slog (historySignals t q)"
  by (auto simp: locationHistoryCheck_def historySignals_def record_all_single
        record_all_Nil split: option.splits)

lemma suspiciousActivitiesCheck_eq:
  "suspiciousActivitiesCheck t q slog =
     (if anomalyCount q \<ge> 3 then Some Multiple_security_concerns else None,
      record_all slog (anomalySignals t q))"
  by (auto simp: suspiciousActivitiesCheck_def anomalyCount_def anomalySignals_def Let_def
        logActivities_record_all record_all_Nil split: option.splits)

lemma deviceFingerprintCheck_eq:
  "deviceFingerprintCheck t today rs q slog = record_all slog (deviceSignals t today rs q)"
  by (auto simp: deviceFingerprintCheck_def deviceSignals_def Let_def record_all_single
        record_all_Nil split: option.splits)

lemma fraudEvaluation_eq:
  "fraudEvaluation t today rs q slog =
     (if accuracyRejects q
      then (Some (Gps_accuracy_too_low (the (q_locationAccuracy q))),
            record_all slog
              [signal t q ''POOR_GPS_ACCURACY'' (M_accuracy (the (q_locationAccuracy q)))])
      else if q_isMockLocation q = Some True
      then (Some Mock_location_detected,
            record_all slog
              (verificationTimeSignals t q
               @ [signal t q ''MOCK_LOCATION_DETECTED'' (M_devicePlatform (q_devicePlatform q))]))
      else if anomalyCount q \<ge> 3
      then (Some Multiple_security_concerns,
            record_all slog
              (verificationTimeSignals t q @ historySignals t q @ anomalySignals t q))
      else (None,
            record_all slog
              (verificationTimeSignals t q @ historySignals t q @ anomalySignals t q
               @ deviceSignals t today rs q)))"
  unfolding fraudEvaluation_def gpsAccuracyCheck_eq verificationTimeCheck_eq
    mockLocationCheck_eq locationHistoryCheck_eq suspiciousActivitiesCheck_eq
    deviceFingerprintCheck_eq
  by (simp add: and_then_def record_all_append)



section \<open>Properties of the submission flow\<close>

subsection \<open>Dates\<close>

lemma setHours0_le: "setHours0 tz t \<le> t"
  by (simp add: setHours0_def)

lemma setHours0_mono: "s \<le> t \<Longrightarrow> setHours0 tz s \<le> setHours0 tz t"
proof -
  assume st: "s \<le> t"
  have eq: "setHours0 tz x = ((x + tz) div 86400000) * 86400000 - tz" for x
  proof -
    have "(x + tz) - (x + tz) mod 86400000 = ((x + tz) div 86400000) * 86400000"
      by (simp add: minus_mod_eq_div_mult)
    then show ?thesis by (simp add: setHours0_def)
  qed
  from st have "(s + tz) div 86400000 \<le> (t + tz) div 86400000" by (simp add: zdiv_mono1)
  then show ?thesis by (simp add: eq)
qed

lemma setHours_plus_two:
  "setHours tz change t (getHours tz change t + 2)
     = UTC tz change (LocalTime tz change t + 7200000)"
proof -
  have "x mod 86400000 mod 3600000 = x mod 3600000" for x :: int
    by (simp add: mod_mod_cancel)
  then have "(x mod 86400000) div 3600000 * 3600000 + x mod 3600000 = x mod 86400000" for x :: int
    by (metis mult.commute mult_div_mod_eq)
  then have eq: "x - x mod 86400000 + ((x mod 86400000) div 3600000 + 2) * 3600000 + x mod 3600000
               = x + 7200000" for x :: int
    by (simp add: algebra_simps)
  show ?thesis
    by (simp only: setHours_def getHours_def Let_def eq)
qed

lemma setHours_plus_two_fixed_offset:
  "setHours tz None t (getHours tz None t + 2) = t + 7200000"
  by (simp add: setHours_plus_two UTC_def LocalTime_def)

subsection \<open>The handler after its guards\<close>

lemma createReview_reaching_fraud_evaluation:
  assumes "reachesFraudEvaluation e q st b"
  shows "createReview e q st =
           (case fraudEvaluation (e_now e) (setHours0 (e_tz e) (e_now e)) (reviews st) q
                   (suspiciousActivityLog st) of
              (Some rejection, slog) \<Rightarrow> (rejection, st\<lparr>suspiciousActivityLog := slog\<rparr>)
            | (None, slog) \<Rightarrow>
                persistReview e q b (actualDistance q b) (st\<lparr>suspiciousActivityLog := slog\<rparr>))"
  using assms unfolding actualDistance_def
  by (simp add: createReview_def reachesFraudEvaluation_def Let_def)

subsection \<open>What the stages after the fraud evaluation change\<close>

lemma foldl_rating_sum:
  "foldl (\<lambda>sum r. sum + r_rating r) a rs = a + sum_list (map r_rating rs)"
  by (induction rs arbitrary: a) simp_all

lemma updateBusinessRating_frame:
  "reviews (updateBusinessRating bid st) = reviews st"
  "coupons (updateBusinessRating bid st) = coupons st"
  "suspiciousActivityLog (updateBusinessRating bid st) = suspiciousActivityLog st"
  by (simp_all add: updateBusinessRating_def Let_def)

lemma updateBusinessRating_businesses:
  "businesses (updateBusinessRating bid st) =
     map (\<lambda>b. if b_id b = bid
               then b\<lparr>b_ratingAverage := mean (allRatings bid (reviews st)),
                      b_ratingCount := length (allRatings bid (reviews st)),
                      b_reviewCount := length (allRatings bid (reviews st))\<rparr>
               else b)
         (businesses st)"
  by (simp add: updateBusinessRating_def Let_def mean_def allRatings_def foldl_rating_sum)

lemma rewardEvaluation_frame:
  "businesses (snd (rewardEvaluation e q rv st)) = businesses st"
  "suspiciousActivityLog (snd (rewardEvaluation e q rv st)) = suspiciousActivityLog st"
  by (simp_all add: rewardEvaluation_def Let_def)

lemma newCoupon_fields:
  "c_id (newCoupon e q tpl) = e_couponId e"
  "c_code (newCoupon e q tpl) = generateCouponCode (e_draws e)"
  "c_type (newCoupon e q tpl) = Review_reward"
  "c_status (newCoupon e q tpl) = Active"
  "c_validFrom (newCoupon e q tpl) = Date (e_validFrom e)"
  "c_validUntil (newCoupon e q tpl)
     = Date (UTC (e_tz e) (e_tz_change e) (LocalTime (e_tz e) (e_tz_change e) (e_expiry e) + 7200000))"
  by (simp_all add: newCoupon_def Let_def setHours_plus_two)

text \<open>The three ways the reward evaluation can end.\<close>

lemma rewardEvaluation_cases:
  obtains
    (limit_reached) "rewardEvaluation e q rv st = (Review_posted_limit_reached rv, st)"
  | (duplicate_code) "rewardEvaluation e q rv st = (Server_error ''E11000 duplicate key'', st)"
  | (minted) st' where
      "rewardEvaluation e q rv st =
         (Review_posted (rv\<lparr>r_couponAwarded := True, r_coupon := Some (e_couponId e)\<rparr>)
            (newCoupon e q (findCouponTemplate (q_business q) (coupons st))), st')"
      "reviews st' =
         map (\<lambda>r. if r_id r = r_id rv
                   then rv\<lparr>r_couponAwarded := True, r_coupon := Some (e_couponId e)\<rparr> else r)
             (reviews st)"
      "\<not> redemptionLimitReached (findCouponTemplate (q_business q) (coupons st))
           (q_business q) (coupons st)"
      "generateCouponCode (e_draws e) \<notin> set (map c_code (coupons st))"
      "length (coupons st') = Suc (length (coupons st))"
      "newCoupon e q (findCouponTemplate (q_business q) (coupons st)) \<in> set (coupons st')
         \<or> (\<exists>tpl. findCouponTemplate (q_business q) (coupons st) = Some tpl
                  \<and> c_id tpl = e_couponId e)"
proof (cases "redemptionLimitReached (findCouponTemplate (q_business q) (coupons st))
                (q_business q) (coupons st)")
  case True
  then show ?thesis using limit_reached by (simp add: rewardEvaluation_def Let_def)
next
  case open_gate: False
  let ?c = "newCoupon e q (findCouponTemplate (q_business q) (coupons st))"
  note id = newCoupon_fields(1) and code = newCoupon_fields(2)
  show ?thesis
  proof (cases "c_code ?c \<in> set (map c_code (coupons st))")
    case True
    then show ?thesis using duplicate_code open_gate
      by (simp add: rewardEvaluation_def Let_def)
  next
    case False
    show ?thesis
    proof (rule minted[of "snd (rewardEvaluation e q rv st)"])
      show "rewardEvaluation e q rv st =
         (Review_posted (rv\<lparr>r_couponAwarded := True, r_coupon := Some (e_couponId e)\<rparr>) ?c,
          snd (rewardEvaluation e q rv st))"
        using open_gate False by (simp add: rewardEvaluation_def Let_def id)
      show "reviews (snd (rewardEvaluation e q rv st)) =
         map (\<lambda>r. if r_id r = r_id rv
                   then rv\<lparr>r_couponAwarded := True, r_coupon := Some (e_couponId e)\<rparr> else r)
             (reviews st)"
        using open_gate False by (simp add: rewardEvaluation_def Let_def id)
      show "\<not> redemptionLimitReached (findCouponTemplate (q_business q) (coupons st))
           (q_business q) (coupons st)"
        by (rule open_gate)
      show "generateCouponCode (e_draws e) \<notin> set (map c_code (coupons st))"
        using False code by simp
      show "length (coupons (snd (rewardEvaluation e q rv st))) = Suc (length (coupons st))"
        using open_gate False
        by (simp add: rewardEvaluation_def Let_def split: option.splits)
      show "?c \<in> set (coupons (snd (rewardEvaluation e q rv st)))
         \<or> (\<exists>tpl. findCouponTemplate (q_business q) (coupons st) = Some tpl
                  \<and> c_id tpl = e_couponId e)"
        using open_gate False
        by (auto simp: rewardEvaluation_def Let_def id split: option.splits)
    qed
  qed
qed

lemma newReview_is_created: "is_created_review e q (newReview e q b d)"
  by (simp add: is_created_review_def newReview_def)

lemma is_created_review_awarded:
  "is_created_review e q rv \<Longrightarrow> is_created_review e q (rv\<lparr>r_couponAwarded := x, r_coupon := y\<rparr>)"
  by (simp add: is_created_review_def)

lemma map_fresh_id:
  "i \<notin> set (map r_id rs) \<Longrightarrow> map (\<lambda>r. if r_id r = i then x else r) rs = rs"
  by (induction rs) auto

lemma persistReview_invalid:
  "\<not> reviewSchemaValid q
     \<Longrightarrow> persistReview e q b d st = (Server_error ''ValidationError'', st)"
  by (simp add: persistReview_def)

lemma persistReview_frame:
  "suspiciousActivityLog (snd (persistReview e q b d st)) = suspiciousActivityLog st"
  by (simp add: persistReview_def Let_def rewardEvaluation_frame updateBusinessRating_frame)

lemma persistReview_creates:
  assumes "reviewSchemaValid q"
  shows "\<exists>rv \<in> set (reviews (snd (persistReview e q b d st))). is_created_review e q rv"
proof -
  let ?rv = "newReview e q b d"
  let ?st2 = "updateBusinessRating (q_business q) (st\<lparr>reviews := reviews st @ [?rv]\<rparr>)"
  have p: "persistReview e q b d st = rewardEvaluation e q ?rv ?st2"
    using assms by (simp add: persistReview_def Let_def)
  have r2: "reviews ?st2 = reviews st @ [?rv]"
    by (simp add: updateBusinessRating_frame)
  show ?thesis
  proof (cases rule: rewardEvaluation_cases[of e q ?rv ?st2])
    case limit_reached
    then show ?thesis using p r2 newReview_is_created by auto
  next
    case duplicate_code
    then show ?thesis using p r2 newReview_is_created by auto
  next
    case (minted st')
    let ?rv' = "?rv\<lparr>r_couponAwarded := True, r_coupon := Some (e_couponId e)\<rparr>"
    have "?rv' \<in> set (reviews st')"
      using minted(2) r2 by simp
    moreover have "is_created_review e q ?rv'"
      by (rule is_created_review_awarded[OF newReview_is_created])
    ultimately show ?thesis using p minted(1) by auto
  qed
qed

lemma persistReview_appends:
  assumes "reviewSchemaValid q" and "e_reviewId e \<notin> set (map r_id (reviews st))"
  shows "\<exists>rv. is_created_review e q rv
              \<and> reviews (snd (persistReview e q b d st)) = reviews st @ [rv]"
proof -
  let ?rv = "newReview e q b d"
  let ?st2 = "updateBusinessRating (q_business q) (st\<lparr>reviews := reviews st @ [?rv]\<rparr>)"
  have p: "persistReview e q b d st = rewardEvaluation e q ?rv ?st2"
    using assms by (simp add: persistReview_def Let_def)
  have r2: "reviews ?st2 = reviews st @ [?rv]"
    by (simp add: updateBusinessRating_frame)
  have rid: "r_id ?rv = e_reviewId e" by (simp add: newReview_def)
  show ?thesis
  proof (cases rule: rewardEvaluation_cases[of e q ?rv ?st2])
    case limit_reached
    then show ?thesis using p r2 newReview_is_created by auto
  next
    case duplicate_code
    then show ?thesis using p r2 newReview_is_created by auto
  next
    case (minted st')
    let ?rv' = "?rv\<lparr>r_couponAwarded := True, r_coupon := Some (e_couponId e)\<rparr>"
    have "reviews st' = reviews st @ [?rv']"
      using minted(2) r2 rid map_fresh_id[OF assms(2)] by simp
    moreover have "is_created_review e q ?rv'"
      by (rule is_created_review_awarded[OF newReview_is_created])
    ultimately show ?thesis using p minted(1) by auto
  qed
qed

lemma persistReview_businesses:
  assumes "reviewSchemaValid q"
  shows "businesses (snd (persistReview e q b d st)) =
           map (\<lambda>b'. if b_id b' = q_business q
                     then b'\<lparr>b_ratingAverage :=
                               mean (allRatings (q_business q) (reviews st) @ [q_rating q]),
                             b_ratingCount := Suc (length (allRatings (q_business q) (reviews st))),
                             b_reviewCount := Suc (length (allRatings (q_business q) (reviews st)))\<rparr>
                     else b')
               (businesses st)"
  using assms
  by (simp add: persistReview_def Let_def rewardEvaluation_frame updateBusinessRating_businesses
        allRatings_def newReview_def)

lemma is_created_review_ratings:
  "is_created_review e q rv
     \<Longrightarrow> allRatings (q_business q) (rs @ [rv]) = allRatings (q_business q) rs @ [q_rating q]"
  by (simp add: is_created_review_def allRatings_def)

text \<open>The handler either leaves the review store alone or appends the created review.\<close>

lemma createReview_reviews:
  assumes "e_reviewId e \<notin> set (map r_id (reviews st))"
  shows "reviews (snd (createReview e q st)) = reviews st
         \<or> (existingReview (setHours0 (e_tz e) (e_now e)) (q_user q) (q_business q) (reviews st) = None
            \<and> reviewSchemaValid q
            \<and> (\<exists>b. reachesFraudEvaluation e q st b)
            \<and> (\<exists>rv. is_created_review e q rv
                    \<and> reviews (snd (createReview e q st)) = reviews st @ [rv]))"
proof (cases "\<exists>b. reachesFraudEvaluation e q st b")
  case False
  then have "reviews (snd (createReview e q st)) = reviews st"
    by (auto simp: createReview_def reachesFraudEvaluation_def Let_def
             split: option.splits)
  then show ?thesis ..
next
  case True
  then obtain b where reach: "reachesFraudEvaluation e q st b" ..
  obtain verdict slog where
    fe: "fraudEvaluation (e_now e) (setHours0 (e_tz e) (e_now e)) (reviews st) q
           (suspiciousActivityLog st) = (verdict, slog)"
    by (cases "fraudEvaluation (e_now e) (setHours0 (e_tz e) (e_now e)) (reviews st) q
                 (suspiciousActivityLog st)")
  show ?thesis
  proof (cases verdict)
    case (Some rejection)
    then show ?thesis
      using createReview_reaching_fraud_evaluation[OF reach] fe by simp
  next
    case None
    let ?st = "st\<lparr>suspiciousActivityLog := slog\<rparr>"
    have c: "createReview e q st = persistReview e q b (actualDistance q b) ?st"
      using createReview_reaching_fraud_evaluation[OF reach] fe None by simp
    show ?thesis
    proof (cases "reviewSchemaValid q")
      case False
      then show ?thesis using c by (simp add: persistReview_invalid)
    next
      case True
      have "e_reviewId e \<notin> set (map r_id (reviews ?st))" using assms by simp
      from persistReview_appends[OF True this, of b "actualDistance q b"]
      obtain rv where "is_created_review e q rv"
        and "reviews (snd (createReview e q st)) = reviews st @ [rv]"
        using c by auto
      moreover have "existingReview (setHours0 (e_tz e) (e_now e)) (q_user q) (q_business q) (reviews st)
                       = None"
        using reach by (simp add: reachesFraudEvaluation_def)
      ultimately show ?thesis using True reach by blast
    qed
  qed
qed

lemma createReview_persisted:
  assumes "reviews (snd (createReview e q st)) \<noteq> reviews st"
  shows "\<exists>b slog. reachesFraudEvaluation e q st b \<and> reviewSchemaValid q
           \<and> createReview e q st
               = persistReview e q b (actualDistance q b) (st\<lparr>suspiciousActivityLog := slog\<rparr>)"
proof (cases "\<exists>b. reachesFraudEvaluation e q st b")
  case False
  then have "reviews (snd (createReview e q st)) = reviews st"
    by (auto simp: createReview_def reachesFraudEvaluation_def Let_def
             split: option.splits)
  with assms show ?thesis by simp
next
  case True
  then obtain b where reach: "reachesFraudEvaluation e q st b" ..
  obtain verdict slog where
    fe: "fraudEvaluation (e_now e) (setHours0 (e_tz e) (e_now e)) (reviews st) q
           (suspiciousActivityLog st) = (verdict, slog)"
    by (cases "fraudEvaluation (e_now e) (setHours0 (e_tz e) (e_now e)) (reviews st) q
                 (suspiciousActivityLog st)")
  show ?thesis
  proof (cases verdict)
    case (Some rejection)
    then have "reviews (snd (createReview e q st)) = reviews st"
      using createReview_reaching_fraud_evaluation[OF reach] fe by simp
    with assms show ?thesis by simp
  next
    case None
    have c: "createReview e q st
               = persistReview e q b (actualDistance q b) (st\<lparr>suspiciousActivityLog := slog\<rparr>)"
      using createReview_reaching_fraud_evaluation[OF reach] fe None by simp
    have "reviewSchemaValid q"
    proof (rule ccontr)
      assume "\<not> reviewSchemaValid q"
      then have "reviews (snd (createReview e q st)) = reviews st"
        using c by (simp add: persistReview_invalid)
      with assms show False by simp
    qed
    with reach c show ?thesis by blast
  qed
qed

subsection \<open>Where coupons are minted\<close>

lemma fraudEvaluation_verdicts:
  "fst (fraudEvaluation t today rs q slog)
     \<in> {None, Some (Gps_accuracy_too_low (the (q_locationAccuracy q))),
        Some Mock_location_detected, Some Multiple_security_concerns}"
  by (simp add: fraudEvaluation_eq)

lemma persistReview_posted:
  assumes "persistReview e q b d st = (Review_posted rv c, st')"
  shows "c = newCoupon e q (findCouponTemplate (q_business q) (coupons st))"
    and "\<not> redemptionLimitReached (findCouponTemplate (q_business q) (coupons st))
             (q_business q) (coupons st)"
    and "length (coupons st') = Suc (length (coupons st))"
proof -
  let ?rv = "newReview e q b d"
  let ?st2 = "updateBusinessRating (q_business q) (st\<lparr>reviews := reviews st @ [?rv]\<rparr>)"
  have valid: "reviewSchemaValid q"
    using assms by (auto simp: persistReview_def split: if_splits)
  have p: "persistReview e q b d st = rewardEvaluation e q ?rv ?st2"
    using valid by (simp add: persistReview_def Let_def)
  have cs: "coupons ?st2 = coupons st" by (simp add: updateBusinessRating_frame)
  show "c = newCoupon e q (findCouponTemplate (q_business q) (coupons st))"
    and "\<not> redemptionLimitReached (findCouponTemplate (q_business q) (coupons st))
             (q_business q) (coupons st)"
    and "length (coupons st') = Suc (length (coupons st))"
    using assms p cs by (cases rule: rewardEvaluation_cases[of e q ?rv ?st2]; simp)+
qed

lemma persistReview_not_posted:
  assumes "\<forall>rv c. fst (persistReview e q b d st) \<noteq> Review_posted rv c"
  shows "coupons (snd (persistReview e q b d st)) = coupons st"
proof (cases "reviewSchemaValid q")
  case False
  then show ?thesis by (simp add: persistReview_invalid)
next
  case True
  let ?rv = "newReview e q b d"
  let ?st2 = "updateBusinessRating (q_business q) (st\<lparr>reviews := reviews st @ [?rv]\<rparr>)"
  have p: "persistReview e q b d st = rewardEvaluation e q ?rv ?st2"
    using True by (simp add: persistReview_def Let_def)
  have cs: "coupons ?st2 = coupons st" by (simp add: updateBusinessRating_frame)
  show ?thesis
    using assms p cs by (cases rule: rewardEvaluation_cases[of e q ?rv ?st2]; simp)
qed

text \<open>Every run of the handler ends in a rejection that touches only the log, or in the
  part that persists the review.\<close>

lemma createReview_cases:
  obtains
    (rejected) slog where
      "snd (createReview e q st) = st\<lparr>suspiciousActivityLog := slog\<rparr>"
      "\<forall>rv c. fst (createReview e q st) \<noteq> Review_posted rv c"
      "\<forall>rv. fst (createReview e q st) \<noteq> Review_posted_limit_reached rv"
  | (persisting) b slog where
      "reachesFraudEvaluation e q st b"
      "createReview e q st
         = persistReview e q b (actualDistance q b) (st\<lparr>suspiciousActivityLog := slog\<rparr>)"
proof (cases "\<exists>b. reachesFraudEvaluation e q st b")
  case False
  have "snd (createReview e q st) = st\<lparr>suspiciousActivityLog := suspiciousActivityLog st\<rparr>
        \<or> snd (createReview e q st)
            = st\<lparr>suspiciousActivityLog :=
                   logSuspiciousBehavior (e_now e) (q_user q) ''RATE_LIMIT_EXCEEDED''
                     (q_business q)
                     (M_reviewCount (todayReviewCount (setHours0 (e_tz e) (e_now e)) (q_user q) (reviews st)))
                     (suspiciousActivityLog st)\<rparr>
        \<or> (\<exists>b. snd (createReview e q st)
            = st\<lparr>suspiciousActivityLog :=
                   logSuspiciousBehavior (e_now e) (q_user q) ''GEOFENCE_VIOLATION''
                     (q_business q) (M_distance (actualDistance q b) (b_radius b))
                     (suspiciousActivityLog st)\<rparr>)"
    using False unfolding actualDistance_def
    by (auto simp: createReview_def reachesFraudEvaluation_def Let_def split: option.splits)
  moreover have "\<forall>rv c. fst (createReview e q st) \<noteq> Review_posted rv c"
    and "\<forall>rv. fst (createReview e q st) \<noteq> Review_posted_limit_reached rv"
    using False
    by (auto simp: createReview_def reachesFraudEvaluation_def Let_def split: option.splits)
  ultimately show ?thesis using rejected by blast
next
  case True
  then obtain b where reach: "reachesFraudEvaluation e q st b" ..
  obtain verdict slog where
    fe: "fraudEvaluation (e_now e) (setHours0 (e_tz e) (e_now e)) (reviews st) q
           (suspiciousActivityLog st) = (verdict, slog)"
    by (cases "fraudEvaluation (e_now e) (setHours0 (e_tz e) (e_now e)) (reviews st) q
                 (suspiciousActivityLog st)")
  show ?thesis
  proof (cases verdict)
    case None
    then show ?thesis
      using createReview_reaching_fraud_evaluation[OF reach] fe persisting[OF reach] by simp
  next
    case (Some rejection)
    have "rejection \<in> {Gps_accuracy_too_low (the (q_locationAccuracy q)),
                        Mock_location_detected, Multiple_security_concerns}"
      using fraudEvaluation_verdicts[of "e_now e" "setHours0 (e_tz e) (e_now e)" "reviews st" q
              "suspiciousActivityLog st"] fe Some by simp
    then show ?thesis
      using createReview_reaching_fraud_evaluation[OF reach] fe Some rejected[of slog] by auto
  qed
qed



section \<open>Absent security metadata\<close>

text \<open>
  C10, as stated: when location accuracy, mock-location flag, location-history count,
  anomalies and device fingerprint are all absent, the fraud evaluation records no entry.
  It fails on a request that carries none of the five but a verification time other than
  30: the source records a verification-time mismatch. And a request that passes every
  check is not stored when its document fails the validation of the Review schema.
\<close>

theorem absent_metadata_counterexample:
  "q_locationAccuracy timed_request = None \<and> q_isMockLocation timed_request = None
   \<and> q_locationHistoryCount timed_request = None \<and> q_suspiciousActivities timed_request = None
   \<and> q_deviceFingerprint timed_request = None
   \<and> fraudEvaluation 7 0 [] timed_request []
       = (None, [signal 7 timed_request ''VERIFICATION_TIME_MISMATCH'' (M_verificationTime 45)])
   \<and> createReview env0 sad_request store0 = (Server_error ''ValidationError'', store0)"
proof -
  have reach: "reachesFraudEvaluation env0 sad_request store0 cafe"
    by (simp add: reachesFraudEvaluation_def store0_def cafe_def sad_request_def
          bare_request_def clean_request_def env0_def todayReviewCount_def existingReview_def
          isWithinGeofence_def calculateDistance_same_point)
  have clean: "fraudEvaluation t today rs sad_request slog = (None, slog)" for t today rs slog
    by (simp add: fraudEvaluation_def and_then_def gpsAccuracyCheck_def
          verificationTimeCheck_def mockLocationCheck_def locationHistoryCheck_def
          suspiciousActivitiesCheck_def deviceFingerprintCheck_def truthy_num_def
          sad_request_def bare_request_def)
  have invalid: "\<not> reviewSchemaValid sad_request"
    by (simp add: reviewSchemaValid_def or_null_def review_emotions_def sad_request_def)
  have "createReview env0 sad_request store0 = (Server_error ''ValidationError'', store0)"
    using createReview_reaching_fraud_evaluation[OF reach]
    by (simp add: clean persistReview_invalid[OF invalid] store0_def)
  then show ?thesis
    by (simp add: fraudEvaluation_def and_then_def gpsAccuracyCheck_def
          verificationTimeCheck_def mockLocationCheck_def locationHistoryCheck_def
          suspiciousActivitiesCheck_def deviceFingerprintCheck_def logSuspiciousBehavior_def
          truthy_num_def signal_def timed_request_def bare_request_def clean_request_def Let_def)
qed

text \<open>
  C10, amended: each check is skipped when its field is absent; when all six fields that
  the fraud evaluation reads (location accuracy, verification time, mock-location flag,
  location-history count, anomalies, device fingerprint) are absent, the evaluation
  rejects nothing and records nothing; and such a submission, once it has passed the
  business, rate, duplicate and geofence checks and its document satisfies the Review
  schema, leaves the log unchanged and stores a review with \<open>verified = true\<close>.
\<close>

theorem absent_metadata_treated_as_clean:
  "(q_locationAccuracy q = None \<longrightarrow> gpsAccuracyCheck t q slog = (None, slog))
   \<and> (q_verificationTime q = None \<longrightarrow> verificationTimeCheck t q slog = slog)
   \<and> (q_isMockLocation q = None \<longrightarrow> mockLocationCheck t q slog = (None, slog))
   \<and> (q_locationHistoryCount q = None \<longrightarrow> locationHistoryCheck t q slog = slog)
   \<and> (q_suspiciousActivities q = None \<longrightarrow> suspiciousActivitiesCheck t q slog = (None, slog))
   \<and> (q_deviceFingerprint q = None \<longrightarrow> deviceFingerprintCheck t today rs q slog = slog)
   \<and> (q_locationAccuracy q = None \<and> q_verificationTime q = None \<and> q_isMockLocation q = None
        \<and> q_locationHistoryCount q = None \<and> q_suspiciousActivities q = None
        \<and> q_deviceFingerprint q = None
      \<longrightarrow> fraudEvaluation t today rs q slog = (None, slog)
          \<and> (reachesFraudEvaluation e q st b \<and> reviewSchemaValid q
              \<longrightarrow> suspiciousActivityLog (snd (createReview e q st)) = suspiciousActivityLog st
                  \<and> (\<exists>rv \<in> set (reviews (snd (createReview e q st))).
                        is_created_review e q rv \<and> r_verified rv)))"
proof (intro conjI impI)
  assume absent: "q_locationAccuracy q = None \<and> q_verificationTime q = None
        \<and> q_isMockLocation q = None \<and> q_locationHistoryCount q = None
        \<and> q_suspiciousActivities q = None \<and> q_deviceFingerprint q = None"
  then show clean: "fraudEvaluation t today rs q slog = (None, slog)" for t today rs slog
    by (simp add: fraudEvaluation_def and_then_def gpsAccuracyCheck_def
          verificationTimeCheck_def mockLocationCheck_def locationHistoryCheck_def
          suspiciousActivitiesCheck_def deviceFingerprintCheck_def truthy_num_def)
  assume "reachesFraudEvaluation e q st b \<and> reviewSchemaValid q"
  then have reach: "reachesFraudEvaluation e q st b" and valid: "reviewSchemaValid q"
    by simp_all
  have c: "createReview e q st = persistReview e q b (actualDistance q b) st"
    using createReview_reaching_fraud_evaluation[OF reach] clean by simp
  show "suspiciousActivityLog (snd (createReview e q st)) = suspiciousActivityLog st"
    by (simp add: c persistReview_frame)
  show "\<exists>rv \<in> set (reviews (snd (createReview e q st))). is_created_review e q rv \<and> r_verified rv"
    using persistReview_creates[OF valid, of e b "actualDistance q b" st] c
    by (auto simp: is_created_review_def)
qed (simp_all add: gpsAccuracyCheck_def verificationTimeCheck_def mockLocationCheck_def
       locationHistoryCheck_def suspiciousActivitiesCheck_def deviceFingerprintCheck_def
       truthy_num_def)

lemma scenario_reaches_fraud_evaluation:
  "reachesFraudEvaluation env0 (clean_request\<lparr>q_locationAccuracy := a, q_verificationTime := v,
      q_motionDetected := m, q_isMockLocation := k, q_locationHistoryCount := h,
      q_suspiciousActivities := s, q_deviceFingerprint := f, q_devicePlatform := p\<rparr>) store0 cafe"
  by (simp add: reachesFraudEvaluation_def store0_def cafe_def clean_request_def env0_def
        todayReviewCount_def existingReview_def isWithinGeofence_def
        calculateDistance_same_point)

lemma scenario_schema_valid:
  "reviewSchemaValid (clean_request\<lparr>q_locationAccuracy := a, q_verificationTime := v,
      q_motionDetected := m, q_isMockLocation := k, q_locationHistoryCount := h,
      q_suspiciousActivities := s, q_deviceFingerprint := f, q_devicePlatform := p\<rparr>)"
  by (simp add: reviewSchemaValid_def clean_request_def or_null_def)

theorem absent_metadata_treated_as_clean_witness:
  "suspiciousActivityLog (snd (createReview env0 bare_request store0)) = []
   \<and> (\<exists>rv \<in> set (reviews (snd (createReview env0 bare_request store0))).
         r_id rv = 100 \<and> r_user rv = 2 \<and> r_business rv = 1 \<and> r_rating rv = 5 \<and> r_verified rv)"
proof -
  have reach: "reachesFraudEvaluation env0 bare_request store0 cafe"
    unfolding bare_request_def by (rule scenario_reaches_fraud_evaluation)
  have valid: "reviewSchemaValid bare_request"
    unfolding bare_request_def by (rule scenario_schema_valid)
  have absent: "q_locationAccuracy bare_request = None \<and> q_verificationTime bare_request = None
        \<and> q_isMockLocation bare_request = None \<and> q_locationHistoryCount bare_request = None
        \<and> q_suspiciousActivities bare_request = None \<and> q_deviceFingerprint bare_request = None"
    by (simp add: bare_request_def)
  have "suspiciousActivityLog (snd (createReview env0 bare_request store0))
          = suspiciousActivityLog store0
        \<and> (\<exists>rv \<in> set (reviews (snd (createReview env0 bare_request store0))).
              is_created_review env0 bare_request rv \<and> r_verified rv)"
    using absent_metadata_treated_as_clean[of bare_request 0 "[]" 0 "[]" env0 store0 cafe]
      reach valid absent by blast
  then show ?thesis
    by (auto simp: is_created_review_def store0_def env0_def bare_request_def clean_request_def)
qed

section \<open>One review per user, business and day\<close>

lemma existingReview_None_iff:
  "existingReview today u b rs = None
     \<longleftrightarrow> (\<forall>r \<in> set rs. \<not> (r_user r = u \<and> r_business r = b \<and> today \<le> r_createdAt r))"
  by (auto simp: existingReview_def find_None_iff)

lemma createReview_duplicate:
  assumes "existingReview (setHours0 (e_tz e) (e_now e)) (q_user q) (q_business q) (reviews st) \<noteq> None"
  shows "reviews (snd (createReview e q st)) = reviews st"
    and "fst (createReview e q st)
           \<in> {Business_not_found, Business_not_active, Rate_limit_reached, Already_reviewed_today}"
    and "find (\<lambda>b. b_id b = q_business q) (businesses st) = Some b \<Longrightarrow> b_status b = Biz_active
         \<Longrightarrow> todayReviewCount (setHours0 (e_tz e) (e_now e)) (q_user q) (reviews st) < 5
         \<Longrightarrow> createReview e q st = (Already_reviewed_today, st)"
  using assms
  by (auto simp: createReview_def Let_def split: option.splits)

text \<open>
  C3, as stated: a second same-day submission is rejected as a duplicate. It fails for a
  user who already has five reviews today, one of them for this business: the rate limit,
  which is checked first, rejects the submission.
\<close>

theorem duplicate_rejection_counterexample:
  "existingReview (setHours0 (e_tz env0) (e_now env0)) (q_user clean_request) (q_business clean_request)
       (reviews busy_day_store) \<noteq> None
   \<and> fst (createReview env0 clean_request busy_day_store) = Rate_limit_reached
   \<and> reviews (snd (createReview env0 clean_request busy_day_store)) = reviews busy_day_store"
  by (simp add: createReview_def existingReview_def todayReviewCount_def busy_day_store_def
        store0_def cafe_def earlier_review_def newReview_def env0_def clean_request_def
        setHours0_def Let_def)

text \<open>
  C3, amended: a submission by a user who already has a review of the same business
  created today is rejected without a review being persisted, whatever its rating and
  comment; the rejection is the duplicate one when the business is active and the user has
  fewer than five reviews today, and otherwise that of the business check or of the rate
  limit, which come first. Hence the handler keeps the invariant that no two reviews of
  one user for one business are created on the same calendar day (the clock does not run
  backwards between the check and the creation, and the store gives the new review a fresh
  identifier).
\<close>

theorem duplicate_rejected_without_persisting:
  "(existingReview (setHours0 (e_tz e) (e_now e)) (q_user q) (q_business q) (reviews st) \<noteq> None
      \<longrightarrow> reviews (snd (createReview e q st)) = reviews st
          \<and> fst (createReview e q st)
               \<in> {Business_not_found, Business_not_active, Rate_limit_reached,
                   Already_reviewed_today}
          \<and> (find (\<lambda>b. b_id b = q_business q) (businesses st) = Some b
               \<and> b_status b = Biz_active
               \<and> todayReviewCount (setHours0 (e_tz e) (e_now e)) (q_user q) (reviews st) < 5
             \<longrightarrow> createReview e q st = (Already_reviewed_today, st)))
   \<and> (one_review_per_day (e_tz e) (reviews st) \<and> e_now e \<le> e_created e
        \<and> e_reviewId e \<notin> set (map r_id (reviews st))
      \<longrightarrow> one_review_per_day (e_tz e) (reviews (snd (createReview e q st))))"
proof (intro conjI impI)
  assume inv: "one_review_per_day (e_tz e) (reviews st) \<and> e_now e \<le> e_created e
        \<and> e_reviewId e \<notin> set (map r_id (reviews st))"
  then have fresh: "e_reviewId e \<notin> set (map r_id (reviews st))" by simp
  from createReview_reviews[OF fresh, of q]
  show "one_review_per_day (e_tz e) (reviews (snd (createReview e q st)))"
  proof
    assume "reviews (snd (createReview e q st)) = reviews st"
    then show ?thesis using inv by simp
  next
    assume "existingReview (setHours0 (e_tz e) (e_now e)) (q_user q) (q_business q) (reviews st) = None
            \<and> reviewSchemaValid q \<and> (\<exists>b. reachesFraudEvaluation e q st b)
            \<and> (\<exists>rv. is_created_review e q rv
                    \<and> reviews (snd (createReview e q st)) = reviews st @ [rv])"
    then obtain rv where
      none: "existingReview (setHours0 (e_tz e) (e_now e)) (q_user q) (q_business q) (reviews st) = None"
      and rv: "is_created_review e q rv"
      and app: "reviews (snd (createReview e q st)) = reviews st @ [rv]"
      by blast
    have "review_day_key (e_tz e) rv \<notin> set (map (review_day_key (e_tz e)) (reviews st))"
    proof
      assume "review_day_key (e_tz e) rv \<in> set (map (review_day_key (e_tz e)) (reviews st))"
      then obtain r where r: "r \<in> set (reviews st)"
        and k: "review_day_key (e_tz e) r = review_day_key (e_tz e) rv"
        by auto
      from k rv have same: "r_user r = q_user q" "r_business r = q_business q"
        "setHours0 (e_tz e) (r_createdAt r) = setHours0 (e_tz e) (e_created e)"
        by (simp_all add: review_day_key_def is_created_review_def)
      have "setHours0 (e_tz e) (e_now e) \<le> setHours0 (e_tz e) (e_created e)"
        using inv by (simp add: setHours0_mono)
      also have "\<dots> \<le> r_createdAt r"
        using same(3) setHours0_le[of "e_tz e" "r_createdAt r"] by simp
      finally have "setHours0 (e_tz e) (e_now e) \<le> r_createdAt r" .
      with none r same show False by (auto simp: existingReview_None_iff)
    qed
    then show ?thesis using inv app by (simp add: one_review_per_day_def)
  qed
qed (use createReview_duplicate in blast)+

theorem duplicate_rejected_without_persisting_witness:
  "createReview env0 second_request reviewed_today_store
     = (Already_reviewed_today, reviewed_today_store)
   \<and> one_review_per_day 19800000 (reviews (snd (createReview env0 clean_request store0)))"
proof -
  have dup: "existingReview (setHours0 (e_tz env0) (e_now env0)) (q_user second_request)
               (q_business second_request) (reviews reviewed_today_store) \<noteq> None"
    by (simp add: existingReview_def reviewed_today_store_def store0_def earlier_review_def
          newReview_def env0_def second_request_def clean_request_def setHours0_def)
  have guards: "find (\<lambda>b. b_id b = q_business second_request) (businesses reviewed_today_store)
                  = Some cafe \<and> b_status cafe = Biz_active
                \<and> todayReviewCount (setHours0 (e_tz env0) (e_now env0)) (q_user second_request)
                     (reviews reviewed_today_store) < 5"
    by (simp add: todayReviewCount_def reviewed_today_store_def store0_def cafe_def
          earlier_review_def newReview_def env0_def second_request_def clean_request_def)
  have inv: "one_review_per_day (e_tz env0) (reviews store0) \<and> e_now env0 \<le> e_created env0
             \<and> e_reviewId env0 \<notin> set (map r_id (reviews store0))"
    by (simp add: one_review_per_day_def store0_def env0_def)
  have tz: "e_tz env0 = 19800000" by (simp add: env0_def)
  show ?thesis
    using dup guards inv
      duplicate_rejected_without_persisting[of env0 second_request reviewed_today_store cafe]
      duplicate_rejected_without_persisting[of env0 clean_request store0 cafe]
    unfolding tz by blast
qed

section \<open>The end-to-end scenario\<close>

text \<open>
  The clean five-star review from the coordinates of the business, against a store of
  reviews \<open>rs\<close> and a store of coupons \<open>cs\<close>: the handler passes every check and reaches
  the reward evaluation.
\<close>

lemma generateCouponCode_scenario: "generateCouponCode (e_draws env0) = ''HASH-ABCDEF''"
  by (simp add: generateCouponCode_def characters_def charAt_def env0_def)

lemma fraudEvaluation_clean_request:
  "fraudEvaluation t today rs clean_request slog = (None, slog)"
  by (simp add: fraudEvaluation_eq accuracyRejects_def anomalyCount_def
        verificationTimeSignals_def historySignals_def anomalySignals_def deviceSignals_def
        record_all_Nil clean_request_def)

lemma clean_request_valid: "reviewSchemaValid clean_request"
  by (simp add: reviewSchemaValid_def clean_request_def or_null_def)

lemma createReview_clean_request:
  assumes "todayReviewCount 66600000 2 rs < 5" and "existingReview 66600000 2 1 rs = None"
  shows "createReview env0 clean_request
           \<lparr>reviews = rs, businesses = [cafe], coupons = cs, suspiciousActivityLog = []\<rparr>
         = persistReview env0 clean_request cafe (Num 0)
             \<lparr>reviews = rs, businesses = [cafe], coupons = cs, suspiciousActivityLog = []\<rparr>"
proof -
  let ?st = "\<lparr>reviews = rs, businesses = [cafe], coupons = cs, suspiciousActivityLog = []\<rparr>"
  have reach: "reachesFraudEvaluation env0 clean_request ?st cafe"
    using assms
    by (simp add: reachesFraudEvaluation_def cafe_def clean_request_def env0_def
          isWithinGeofence_def calculateDistance_same_point setHours0_def)
  have d: "actualDistance clean_request cafe = Num 0"
    by (simp add: actualDistance_def clean_request_def cafe_def calculateDistance_same_point)
  show ?thesis
    using createReview_reaching_fraud_evaluation[OF reach]
    by (simp add: fraudEvaluation_clean_request d)
qed

lemma createReview_clean_request_reward:
  assumes "todayReviewCount 66600000 2 rs < 5" and "existingReview 66600000 2 1 rs = None"
  shows "createReview env0 clean_request
           \<lparr>reviews = rs, businesses = [cafe], coupons = cs, suspiciousActivityLog = []\<rparr>
         = rewardEvaluation env0 clean_request (newReview env0 clean_request cafe (Num 0))
             (updateBusinessRating 1
                \<lparr>reviews = rs @ [newReview env0 clean_request cafe (Num 0)],
                  businesses = [cafe], coupons = cs, suspiciousActivityLog = []\<rparr>)"
proof -
  have b: "q_business clean_request = 1" by (simp add: clean_request_def)
  show ?thesis
    unfolding createReview_clean_request[OF assms]
    using clean_request_valid by (simp add: persistReview_def Let_def b)
qed

text \<open>With no coupon in the store, the scenario ends with a coupon minted from the defaults.\<close>

lemma scenario_posted:
  "fst (createReview env0 clean_request store0)
     = Review_posted
         ((newReview env0 clean_request cafe (Num 0))
            \<lparr>r_couponAwarded := True, r_coupon := Some 200\<rparr>)
         (newCoupon env0 clean_request None)"
proof -
  have "createReview env0 clean_request store0
          = rewardEvaluation env0 clean_request (newReview env0 clean_request cafe (Num 0))
              (updateBusinessRating 1
                 \<lparr>reviews = [] @ [newReview env0 clean_request cafe (Num 0)],
                   businesses = [cafe], coupons = [], suspiciousActivityLog = []\<rparr>)"
    unfolding store0_def
    by (rule createReview_clean_request_reward)
       (simp_all add: todayReviewCount_def existingReview_def)
  then show ?thesis
    by (simp add: rewardEvaluation_def Let_def updateBusinessRating_frame
          findCouponTemplate_def redemptionLimitReached_def newCoupon_fields env0_def)
qed


text \<open>The same for every environment: the clock, the zone, the draws and the fresh ids are free.\<close>

lemma createReview_clean_request_store0:
  "createReview e clean_request store0
     = rewardEvaluation e clean_request (newReview e clean_request cafe (Num 0))
         (updateBusinessRating 1
            \<lparr>reviews = [newReview e clean_request cafe (Num 0)],
              businesses = [cafe], coupons = [], suspiciousActivityLog = []\<rparr>)"
proof -
  have reach: "reachesFraudEvaluation e clean_request store0 cafe"
    by (simp add: reachesFraudEvaluation_def cafe_def clean_request_def store0_def
          todayReviewCount_def existingReview_def
          isWithinGeofence_def calculateDistance_same_point)
  have d: "actualDistance clean_request cafe = Num 0"
    by (simp add: actualDistance_def clean_request_def cafe_def calculateDistance_same_point)
  have b: "q_business clean_request = 1" by (simp add: clean_request_def)
  have "createReview e clean_request store0
          = persistReview e clean_request cafe (Num 0) store0"
    using createReview_reaching_fraud_evaluation[OF reach]
    by (simp add: fraudEvaluation_clean_request d store0_def)
  then show ?thesis
    using clean_request_valid by (simp add: persistReview_def Let_def b store0_def)
qed

lemma scenario_minted:
  "fst (createReview e clean_request store0)
     = Review_posted
         ((newReview e clean_request cafe (Num 0))
            \<lparr>r_couponAwarded := True, r_coupon := Some (e_couponId e)\<rparr>)
         (newCoupon e clean_request None)"
  "coupons (snd (createReview e clean_request store0)) = [newCoupon e clean_request None]"
  by (simp_all add: createReview_clean_request_store0 rewardEvaluation_def Let_def
        updateBusinessRating_frame findCouponTemplate_def redemptionLimitReached_def
        newCoupon_fields)
section \<open>The rating aggregate\<close>

text \<open>
  C7, as stated: after a review is persisted the stored average is the mean of the ratings
  of the approved reviews of the business. It fails when the business has a review that is
  not approved: with one rejected one-star review in the store, a new five-star review
  leaves the average at 3, while the approved ratings have mean 5.
\<close>

theorem rating_average_counterexample:
  "map b_ratingAverage (businesses (snd (createReview env0 clean_request moderated_store))) = [3]
   \<and> mean (approvedRatings 1 (reviews (snd (createReview env0 clean_request moderated_store))))
       = 5"
proof -
  let ?rs = "[(earlier_review 11 1 10)\<lparr>r_user := 3, r_rating := 1, r_status := Rv_rejected\<rparr>]"
  have m: "moderated_store
             = \<lparr>reviews = ?rs, businesses = [cafe], coupons = [], suspiciousActivityLog = []\<rparr>"
    by (simp add: moderated_store_def store0_def)
  have c: "createReview env0 clean_request moderated_store
             = persistReview env0 clean_request cafe (Num 0) moderated_store"
    unfolding m
    by (rule createReview_clean_request)
       (simp_all add: todayReviewCount_def existingReview_def earlier_review_def newReview_def
          clean_request_def)
  note valid = clean_request_valid
  have b: "map b_ratingAverage (businesses (snd (persistReview env0 clean_request cafe (Num 0)
             moderated_store))) = [3]"
    unfolding persistReview_businesses[OF valid]
    by (simp add: moderated_store_def store0_def cafe_def allRatings_def mean_def
          earlier_review_def newReview_def clean_request_def)
  have fresh: "e_reviewId env0 \<notin> set (map r_id (reviews moderated_store))"
    by (simp add: moderated_store_def store0_def earlier_review_def newReview_def env0_def)
  from persistReview_appends[OF valid fresh, of cafe "Num 0"]
  obtain rv where rv: "is_created_review env0 clean_request rv"
    and app: "reviews (snd (persistReview env0 clean_request cafe (Num 0) moderated_store))
                = reviews moderated_store @ [rv]"
    by blast
  have "approvedRatings 1 (reviews moderated_store @ [rv]) = [5]"
    using rv
    by (simp add: approvedRatings_def is_created_review_def moderated_store_def store0_def
          earlier_review_def newReview_def clean_request_def)
  then have "mean (approvedRatings 1 (reviews moderated_store @ [rv])) = 5"
    by (simp add: mean_def)
  with b c app show ?thesis by simp
qed

text \<open>
  C7, amended: after a review is persisted, the stored average of its business is the
  arithmetic mean of the ratings of all reviews of that business in the store, whatever
  their status, computed from the stored reviews and not from the previous average, and
  the rating count and the review count equal the number of those reviews (the store gives
  the new review a fresh identifier).
\<close>

theorem rating_recomputed_over_all_reviews:
  "e_reviewId e \<notin> set (map r_id (reviews st))
     \<and> reviews (snd (createReview e q st)) \<noteq> reviews st
   \<longrightarrow> (\<exists>b \<in> set (businesses (snd (createReview e q st))). b_id b = q_business q)
       \<and> (\<forall>b \<in> set (businesses (snd (createReview e q st))).
            b_id b = q_business q \<longrightarrow>
              b_ratingAverage b
                = mean (allRatings (q_business q) (reviews (snd (createReview e q st))))
              \<and> b_ratingCount b
                = length (allRatings (q_business q) (reviews (snd (createReview e q st))))
              \<and> b_reviewCount b
                = length (allRatings (q_business q) (reviews (snd (createReview e q st)))))"
proof (intro impI)
  assume a: "e_reviewId e \<notin> set (map r_id (reviews st))
     \<and> reviews (snd (createReview e q st)) \<noteq> reviews st"
  then obtain b slog where reach: "reachesFraudEvaluation e q st b"
    and valid: "reviewSchemaValid q"
    and c: "createReview e q st
              = persistReview e q b (actualDistance q b) (st\<lparr>suspiciousActivityLog := slog\<rparr>)"
    using createReview_persisted[of e q st] by blast
  let ?st = "st\<lparr>suspiciousActivityLog := slog\<rparr>"
  have fresh: "e_reviewId e \<notin> set (map r_id (reviews ?st))" using a by simp
  from persistReview_appends[OF valid fresh, of b "actualDistance q b"]
  obtain rv where rv: "is_created_review e q rv"
    and app: "reviews (snd (createReview e q st)) = reviews st @ [rv]"
    using c by auto
  have ratings: "allRatings (q_business q) (reviews (snd (createReview e q st)))
                   = allRatings (q_business q) (reviews st) @ [q_rating q]"
    using app is_created_review_ratings[OF rv] by simp
  let ?f = "\<lambda>b'. if b_id b' = q_business q
                     then b'\<lparr>b_ratingAverage :=
                               mean (allRatings (q_business q) (reviews st) @ [q_rating q]),
                             b_ratingCount := Suc (length (allRatings (q_business q) (reviews st))),
                             b_reviewCount := Suc (length (allRatings (q_business q) (reviews st)))\<rparr>
                     else b'"
  have bs: "businesses (snd (createReview e q st)) = map ?f (businesses st)"
    using persistReview_businesses[OF valid, of e b "actualDistance q b" ?st] c by simp
  have found: "b \<in> set (businesses st)" "b_id b = q_business q"
    using reach by (auto simp: reachesFraudEvaluation_def find_Some_iff)
  have "?f b \<in> set (map ?f (businesses st))" using found(1) unfolding set_map by (rule imageI)
  moreover have "b_id (?f b) = q_business q" using found(2) by simp
  ultimately have ex: "\<exists>b \<in> set (businesses (snd (createReview e q st))). b_id b = q_business q"
    unfolding bs by blast
  have all: "\<forall>b \<in> set (businesses (snd (createReview e q st))).
            b_id b = q_business q \<longrightarrow>
              b_ratingAverage b
                = mean (allRatings (q_business q) (reviews (snd (createReview e q st))))
              \<and> b_ratingCount b
                = length (allRatings (q_business q) (reviews (snd (createReview e q st))))
              \<and> b_reviewCount b
                = length (allRatings (q_business q) (reviews (snd (createReview e q st))))"
    unfolding ratings bs by auto
  from ex all
  show "(\<exists>b \<in> set (businesses (snd (createReview e q st))). b_id b = q_business q)
       \<and> (\<forall>b \<in> set (businesses (snd (createReview e q st))).
            b_id b = q_business q \<longrightarrow>
              b_ratingAverage b
                = mean (allRatings (q_business q) (reviews (snd (createReview e q st))))
              \<and> b_ratingCount b
                = length (allRatings (q_business q) (reviews (snd (createReview e q st))))
              \<and> b_reviewCount b
                = length (allRatings (q_business q) (reviews (snd (createReview e q st)))))"
    by (rule conjI)
qed

theorem rating_recomputed_over_all_reviews_witness:
  "map (\<lambda>b. (b_id b, b_ratingAverage b, b_ratingCount b, b_reviewCount b))
       (businesses (snd (createReview env0 clean_request moderated_store)))
     = [(1, 3, 2, 2)]"
proof -
  let ?rs = "[(earlier_review 11 1 10)\<lparr>r_user := 3, r_rating := 1, r_status := Rv_rejected\<rparr>]"
  have m: "moderated_store
             = \<lparr>reviews = ?rs, businesses = [cafe], coupons = [], suspiciousActivityLog = []\<rparr>"
    by (simp add: moderated_store_def store0_def)
  have c: "createReview env0 clean_request moderated_store
             = persistReview env0 clean_request cafe (Num 0) moderated_store"
    unfolding m
    by (rule createReview_clean_request)
       (simp_all add: todayReviewCount_def existingReview_def earlier_review_def newReview_def
          clean_request_def)
  note valid = clean_request_valid
  have fresh: "e_reviewId env0 \<notin> set (map r_id (reviews moderated_store))"
    by (simp add: moderated_store_def store0_def earlier_review_def newReview_def env0_def)
  from persistReview_appends[OF valid fresh, of cafe "Num 0"]
  obtain rv where rv: "is_created_review env0 clean_request rv"
    and app: "reviews (snd (createReview env0 clean_request moderated_store))
                = reviews moderated_store @ [rv]"
    using c by auto
  have changed: "reviews (snd (createReview env0 clean_request moderated_store))
                   \<noteq> reviews moderated_store"
    using app by simp
  have ratings: "allRatings 1 (reviews (snd (createReview env0 clean_request moderated_store)))
                   = [1, 5]"
    using rv unfolding app
    by (simp add: allRatings_def is_created_review_def moderated_store_def store0_def
          earlier_review_def newReview_def clean_request_def)
  have b: "q_business clean_request = 1" by (simp add: clean_request_def)
  obtain b' where one: "businesses (snd (createReview env0 clean_request moderated_store)) = [b']"
    and id: "b_id b' = 1"
    unfolding c persistReview_businesses[OF valid]
    by (simp add: moderated_store_def store0_def cafe_def b)
  have "b_ratingAverage b' = 3 \<and> b_ratingCount b' = 2 \<and> b_reviewCount b' = 2"
    using rating_recomputed_over_all_reviews[of env0 moderated_store clean_request]
      fresh changed id
    unfolding b ratings one by (simp add: mean_def)
  then show ?thesis using one id by simp
qed

section \<open>Validity window of a review-reward coupon\<close>

text \<open>
  In a zone without a change of offset, the coupon the handler mints is valid until two
  hours after the clock reading taken for \<open>couponExpiry\<close>, which is what
  \<open>calculateCouponExpiry\<close> computes.
\<close>

lemma newCoupon_validUntil_fixed_offset:
  "e_tz_change e = None
     \<Longrightarrow> c_validUntil (newCoupon e q tpl) = Date (calculateCouponExpiry (e_expiry e) 2)"
  by (simp add: newCoupon_fields UTC_def LocalTime_def calculateCouponExpiry_def)

text \<open>
  C6. The handler computes the expiry with \<open>setHours(getHours() + 2)\<close>, on the local clock,
  and not with \<open>calculateCouponExpiry\<close>. On the New York server, the clean five-star
  review that arrives at 01:30 local time on the night the clocks go forward is accepted
  and rewarded; the coupon, in the response and in the store, is valid from 06:30:00.003
  UTC until 03:30:00.002 local time, which is 07:30:00.002 UTC: its validity window is one
  hour less one millisecond. \<open>calculateCouponExpiry\<close> at the same reading gives
  08:30:00.002 UTC.
\<close>

theorem review_reward_window_across_offset_change:
  "fst (createReview env_dst clean_request store0)
     = Review_posted
         ((newReview env_dst clean_request cafe (Num 0))
            \<lparr>r_couponAwarded := True, r_coupon := Some 200\<rparr>)
         (newCoupon env_dst clean_request None)
   \<and> coupons (snd (createReview env_dst clean_request store0))
       = [newCoupon env_dst clean_request None]
   \<and> c_type (newCoupon env_dst clean_request None) = Review_reward
   \<and> c_validFrom (newCoupon env_dst clean_request None) = Date 1710052200003
   \<and> c_validUntil (newCoupon env_dst clean_request None) = Date 1710055800002
   \<and> validityWindow (newCoupon env_dst clean_request None) = Some 3599999
   \<and> calculateCouponExpiry (e_expiry env_dst) 2 = 1710059400002"
proof -
  let ?c = "newCoupon env_dst clean_request None"
  have id: "e_couponId env_dst = 200" by (simp add: env_dst_def)
  have until: "c_validUntil ?c = Date 1710055800002"
    by (simp add: newCoupon_fields UTC_def LocalTime_def env_dst_def)
  have "from": "c_validFrom ?c = Date 1710052200003"
    by (simp add: newCoupon_fields env_dst_def)
  have window: "validityWindow ?c = Some 3599999"
    by (simp add: validityWindow_def until "from")
  have sibling: "calculateCouponExpiry (e_expiry env_dst) 2 = 1710059400002"
    by (simp add: calculateCouponExpiry_def env_dst_def)
  from scenario_minted[of env_dst] until "from" window sibling show ?thesis
    unfolding id by (simp add: newCoupon_fields)
qed
section \<open>Reward evaluation\<close>

text \<open>
  The gate of the reward evaluation, in general: once the submission has been persisted,
  a reached redemption limit ends the handler with the review stored and the coupon store
  untouched.
\<close>

lemma rewardEvaluation_limit_reached:
  "redemptionLimitReached (findCouponTemplate (q_business q) (coupons st)) (q_business q)
       (coupons st)
     \<Longrightarrow> rewardEvaluation e q rv st = (Review_posted_limit_reached rv, st)"
  by (simp add: rewardEvaluation_def Let_def)

lemma rewardEvaluation_minted:
  "\<not> redemptionLimitReached (findCouponTemplate (q_business q) (coupons st)) (q_business q)
         (coupons st)
     \<Longrightarrow> generateCouponCode (e_draws e) \<notin> set (map c_code (coupons st))
     \<Longrightarrow> fst (rewardEvaluation e q rv st)
           = Review_posted (rv\<lparr>r_couponAwarded := True, r_coupon := Some (e_couponId e)\<rparr>)
               (newCoupon e q (findCouponTemplate (q_business q) (coupons st)))"
  by (simp add: rewardEvaluation_def Let_def newCoupon_fields)

lemma newCoupon_from_template:
  "c_rewardType (newCoupon e q (Some tpl)) = c_rewardType tpl"
  "c_rewardValue (newCoupon e q (Some tpl)) = (if c_rewardValue tpl = 0 then 10 else c_rewardValue tpl)"
  "c_minPurchaseAmount (newCoupon e q (Some tpl)) = c_minPurchaseAmount tpl"
  "c_maxDiscountAmount (newCoupon e q (Some tpl))
     = (if c_maxDiscountAmount tpl = Some 0 then None else c_maxDiscountAmount tpl)"
  "c_rewardType (newCoupon e q None) = Percentage"
  "c_rewardValue (newCoupon e q None) = 10"
  "c_minPurchaseAmount (newCoupon e q None) = 0"
  "c_maxDiscountAmount (newCoupon e q None) = None"
  by (auto simp: newCoupon_def Let_def truthy_num_def split: option.splits)

text \<open>
  C5 at a template for a free item whose \<open>rewardValue\<close> is 0: the review is accepted and
  a coupon is minted from the template, of the template's reward type, but with reward
  value 10, the default, in place of the template's 0. With a template that allows two
  redemptions and two redeemed coupons in the store, the review is stored and no coupon is
  minted.
\<close>

theorem zero_reward_value_replaced_by_default:
  "findCouponTemplate 1 (coupons free_item_store) = Some free_item_template
   \<and> c_rewardType free_item_template = Free_item \<and> c_rewardValue free_item_template = 0
   \<and> c_redemptionLimit free_item_template = None
   \<and> fst (createReview env0 clean_request free_item_store)
       = Review_posted
           ((newReview env0 clean_request cafe (Num 0))
              \<lparr>r_couponAwarded := True, r_coupon := Some 200\<rparr>)
           (newCoupon env0 clean_request (Some free_item_template))
   \<and> c_rewardType (newCoupon env0 clean_request (Some free_item_template)) = Free_item
   \<and> c_rewardValue (newCoupon env0 clean_request (Some free_item_template)) = 10
   \<and> createReview env0 clean_request limit_reached_store
       = (Review_posted_limit_reached (newReview env0 clean_request cafe (Num 0)),
          updateBusinessRating 1
            (limit_reached_store\<lparr>reviews := [newReview env0 clean_request cafe (Num 0)]\<rparr>))"
proof -
  have tpl: "findCouponTemplate 1 (coupons free_item_store) = Some free_item_template"
    by (simp add: findCouponTemplate_def free_item_store_def store0_def free_item_template_def
          redeemed_template_def)
  have fields: "c_rewardType free_item_template = Free_item" "c_rewardValue free_item_template = 0"
    "c_redemptionLimit free_item_template = None" "c_code free_item_template = ''FREECAKE''"
    by (simp_all add: free_item_template_def redeemed_template_def)
  have fs: "free_item_store = \<lparr>reviews = [], businesses = [cafe],
              coupons = [free_item_template], suspiciousActivityLog = []\<rparr>"
    by (simp add: free_item_store_def store0_def)
  let ?rv = "newReview env0 clean_request cafe (Num 0)"
  let ?st2 = "updateBusinessRating 1
                 \<lparr>reviews = [] @ [?rv], businesses = [cafe], coupons = [free_item_template],
                   suspiciousActivityLog = []\<rparr>"
  have run: "createReview env0 clean_request free_item_store
               = rewardEvaluation env0 clean_request ?rv ?st2"
    unfolding fs
    by (rule createReview_clean_request_reward)
       (simp_all add: todayReviewCount_def existingReview_def)
  have b: "q_business clean_request = 1" by (simp add: clean_request_def)
  have cid: "e_couponId env0 = 200" by (simp add: env0_def)
  have cs2: "coupons ?st2 = [free_item_template]" by (simp add: updateBusinessRating_frame)
  have tpl2: "findCouponTemplate (q_business clean_request) (coupons ?st2) = Some free_item_template"
    using tpl unfolding b cs2 fs by simp
  have gate: "\<not> redemptionLimitReached (findCouponTemplate (q_business clean_request) (coupons ?st2))
                  (q_business clean_request) (coupons ?st2)"
    unfolding tpl2 by (simp add: redemptionLimitReached_def fields)
  have fresh: "generateCouponCode (e_draws env0) \<notin> set (map c_code (coupons ?st2))"
    unfolding cs2 by (simp add: generateCouponCode_scenario fields)
  have minted: "fst (createReview env0 clean_request free_item_store)
       = Review_posted (?rv\<lparr>r_couponAwarded := True, r_coupon := Some 200\<rparr>)
           (newCoupon env0 clean_request (Some free_item_template))"
    using rewardEvaluation_minted[OF gate fresh, of ?rv] unfolding run tpl2 cid .
  have ltpl: "findCouponTemplate 1 (coupons limit_reached_store) = Some limited_template"
    by (simp add: findCouponTemplate_def limit_reached_store_def store0_def limited_template_def
          redeemed_template_def)
  have count: "redeemedCount 1 (coupons limit_reached_store) = 2"
    by (simp add: redeemedCount_def limit_reached_store_def store0_def limited_template_def
          redeemed_template_def redeemed_reward_def newCoupon_def Let_def clean_request_def)
  have reached: "redemptionLimitReached (findCouponTemplate 1 (coupons limit_reached_store)) 1
                   (coupons limit_reached_store)"
    unfolding redemptionLimitReached_def ltpl count
    by (simp add: limited_template_def redeemed_template_def)
  have ls: "limit_reached_store = \<lparr>reviews = [], businesses = [cafe],
              coupons = coupons limit_reached_store, suspiciousActivityLog = []\<rparr>"
    by (simp add: limit_reached_store_def store0_def)
  let ?st3 = "updateBusinessRating 1
                 \<lparr>reviews = [] @ [?rv], businesses = [cafe],
                   coupons = coupons limit_reached_store, suspiciousActivityLog = []\<rparr>"
  have run3: "createReview env0 clean_request limit_reached_store
                = rewardEvaluation env0 clean_request ?rv ?st3"
    by (subst ls, rule createReview_clean_request_reward)
       (simp_all add: todayReviewCount_def existingReview_def)
  have cs3: "coupons ?st3 = coupons limit_reached_store" by (simp add: updateBusinessRating_frame)
  have reached3: "redemptionLimitReached (findCouponTemplate (q_business clean_request) (coupons ?st3))
                    (q_business clean_request) (coupons ?st3)"
    unfolding cs3 b by (rule reached)
  have st3: "?st3 = updateBusinessRating 1 (limit_reached_store\<lparr>reviews := [?rv]\<rparr>)"
    by (subst (2) ls) simp
  have limit: "createReview env0 clean_request limit_reached_store
       = (Review_posted_limit_reached ?rv,
          updateBusinessRating 1 (limit_reached_store\<lparr>reviews := [?rv]\<rparr>))"
    using rewardEvaluation_limit_reached[OF reached3, of env0 ?rv] unfolding run3 st3 .
  show ?thesis
    using tpl fields(1-3) minted limit
    by (simp add: newCoupon_from_template)
qed

section \<open>Properties of the coupon lifecycle\<close>


























end
